theory Spec2Isabelle
  imports Complex_Main "HOL-Library.Word"
begin

section \<open>Go strings and the functions of package strings that the bot calls\<close>

text \<open>
  A Go string is read by \<^verbatim>\<open>strings.TrimSpace\<close>, \<^verbatim>\<open>strings.ToLower\<close> and
  \<^verbatim>\<open>strings.Map\<close> rune by rune, so a string is modelled as the list of its runes
  (code points; a byte that is not valid UTF-8 decodes to U+FFFD, which is above 127
  as every non-ASCII rune is). The separators that the bot searches for are ASCII, so
  searching the rune list agrees with searching the bytes.
\<close>

type_synonym rune = nat
type_synonym gostring = "rune list"

definition lit :: "string \<Rightarrow> gostring" where
  "lit s = map of_char s"

definition HasPrefix :: "gostring \<Rightarrow> gostring \<Rightarrow> bool" where
  "HasPrefix s prefix = (take (length prefix) s = prefix)"

fun Index :: "gostring \<Rightarrow> gostring \<Rightarrow> nat option" where
  "Index [] sep = (if sep = [] then Some 0 else None)"
| "Index (x # xs) sep =
     (if HasPrefix (x # xs) sep then Some 0 else map_option Suc (Index xs sep))"

definition Contains :: "gostring \<Rightarrow> gostring \<Rightarrow> bool" where
  "Contains s substr = (Index s substr \<noteq> None)"

text \<open>
  \<^verbatim>\<open>genSplit\<close> cuts at most \<open>n\<close> times at the first occurrence of a non-empty
  separator and stops at the first search that fails; the piece left over is the last
  element. \<^verbatim>\<open>Split\<close> allows \<^verbatim>\<open>Count(s, sep)\<close> cuts, which never exceeds the length
  of the string, and \<^verbatim>\<open>SplitN(s, sep, n)\<close> with \<open>n > 0\<close> allows \<open>n - 1\<close>.
\<close>

fun genSplit :: "nat \<Rightarrow> gostring \<Rightarrow> gostring \<Rightarrow> gostring list" where
  "genSplit 0 sep s = [s]"
| "genSplit (Suc n) sep s =
     (case Index s sep of
        None \<Rightarrow> [s]
      | Some m \<Rightarrow> take m s # genSplit n sep (drop (m + length sep) s))"

definition Split :: "gostring \<Rightarrow> gostring \<Rightarrow> gostring list" where
  "Split s sep = genSplit (length s) sep s"

definition SplitN2 :: "gostring \<Rightarrow> gostring \<Rightarrow> gostring list" where
  "SplitN2 s sep = genSplit 1 sep s"

definition TrimPrefix :: "gostring \<Rightarrow> gostring \<Rightarrow> gostring" where
  "TrimPrefix s prefix = (if HasPrefix s prefix then drop (length prefix) s else s)"

fun Join :: "gostring list \<Rightarrow> gostring \<Rightarrow> gostring" where
  "Join [] sep = []"
| "Join [x] sep = x"
| "Join (x # y # ys) sep = x @ sep @ Join (y # ys) sep"

text \<open>\<^verbatim>\<open>unicode.IsSpace\<close>: the Latin-1 spaces and the runes of the property White_Space.\<close>

definition IsSpace :: "rune \<Rightarrow> bool" where
  "IsSpace r =
     (r = 9 \<or> r = 10 \<or> r = 11 \<or> r = 12 \<or> r = 13 \<or> r = 32 \<or> r = 133 \<or> r = 160
      \<or> r = 5760 \<or> (8192 \<le> r \<and> r \<le> 8202) \<or> r = 8232 \<or> r = 8233 \<or> r = 8239
      \<or> r = 8287 \<or> r = 12288)"

definition TrimSpace :: "gostring \<Rightarrow> gostring" where
  "TrimSpace s = rev (dropWhile IsSpace (rev (dropWhile IsSpace s)))"

text \<open>
  \<^verbatim>\<open>unicode.ToLower\<close> maps an ASCII rune itself and sends every other rune through
  the case tables of package unicode, which are not part of the repository: the table
  is the parameter \<open>tbl\<close>.
\<close>

definition unicode_ToLower :: "(rune \<Rightarrow> rune) \<Rightarrow> rune \<Rightarrow> rune" where
  "unicode_ToLower tbl r =
     (if r \<le> 127 then (if 65 \<le> r \<and> r \<le> 90 then r + 32 else r) else tbl r)"

definition ToLower :: "(rune \<Rightarrow> rune) \<Rightarrow> gostring \<Rightarrow> gostring" where
  "ToLower tbl s = map (unicode_ToLower tbl) s"

text \<open>\<^verbatim>\<open>strings.Map\<close> drops a rune whose image is negative.\<close>

definition strings_Map :: "(rune \<Rightarrow> int) \<Rightarrow> gostring \<Rightarrow> gostring" where
  "strings_Map mapping s = map nat (filter (\<lambda>i. 0 \<le> i) (map mapping s))"

definition removeNonASCII :: "rune \<Rightarrow> int" where
  "removeNonASCII r = (if r > 127 then - 1 else int r)"

text \<open>
  The normalisation that \<^verbatim>\<open>loadCommands\<close> applies to every key and \<^verbatim>\<open>main\<close> to
  every message: trim, lower, then remove the runes above 127.
\<close>

definition cleanKey :: "(rune \<Rightarrow> rune) \<Rightarrow> gostring \<Rightarrow> gostring" where
  "cleanKey tbl s = strings_Map removeNonASCII (ToLower tbl (TrimSpace s))"

text \<open>A case table for runes that have no lower-case partner, such as U+00E9.\<close>

definition caseless :: "rune \<Rightarrow> rune" where
  "caseless r = r"

section \<open>Formatting and parsing of integers\<close>

text \<open>The verb \<^verbatim>\<open>%d\<close> of package fmt: decimal digits, a minus sign before a negative number.\<close>

function decimal :: "nat \<Rightarrow> gostring" where
  "decimal n = (if n < 10 then [48 + n] else decimal (n div 10) @ [48 + n mod 10])"
  by pat_completeness auto
termination
  by (relation "measure (\<lambda>n. n)") auto

definition itoa :: "int \<Rightarrow> gostring" where
  "itoa i = (if i < 0 then 45 # decimal (nat (- i)) else decimal (nat i))"

text \<open>
  \<^verbatim>\<open>strconv.Atoi\<close>: an optional sign, then one or more decimal digits and nothing
  else; a value outside the 64-bit range of \<^verbatim>\<open>int\<close> is an error.
\<close>

definition isDigit :: "rune \<Rightarrow> bool" where
  "isDigit c = (48 \<le> c \<and> c \<le> 57)"

definition digitsValue :: "gostring \<Rightarrow> int" where
  "digitsValue ds = foldl (\<lambda>n ch. n * 10 + (int ch - 48)) 0 ds"

definition Atoi :: "gostring \<Rightarrow> int option" where
  "Atoi s =
     (let neg = (s \<noteq> [] \<and> hd s = 45);
          ds = (if s \<noteq> [] \<and> (hd s = 45 \<or> hd s = 43) then tl s else s);
          v = (if neg then - digitsValue ds else digitsValue ds)
      in if ds = [] \<or> \<not> list_all isDigit ds then None
         else if - (2 ^ 63) \<le> v \<and> v < 2 ^ 63 then Some v
         else None)"

section \<open>Machine numbers\<close>

text \<open>
  \<^verbatim>\<open>time.Duration\<close> is an \<^verbatim>\<open>int64\<close>: a product wraps around. The difference of two
  monotonic clock readings saturates (\<^verbatim>\<open>subMono\<close> of package time).
\<close>

definition wrap64 :: "int \<Rightarrow> int" where
  "wrap64 i = sint (word_of_int i :: 64 word)"

definition subMono :: "int \<Rightarrow> int \<Rightarrow> int" where
  "subMono t u =
     (if t - u > 2 ^ 63 - 1 then 2 ^ 63 - 1
      else if t - u < - (2 ^ 63) then - (2 ^ 63)
      else t - u)"

text \<open>
  A \<^verbatim>\<open>float64\<close> is a binary64 number: a real number with 53 significant bits, or
  one of the special values. A conversion, a division and a multiplication give the
  exact result rounded to 53 significant bits, a tie going to the even neighbour
  (\<open>round64\<close>: the exact value is scaled by the power of two that brings it between
  \<open>2^52\<close> and \<open>2^53\<close>, rounded to an integer and scaled back). The range of the
  exponent and the sign of zero are not represented: the numbers of the program are
  64-bit counts, their quotient and its product with 100, far from overflow and from
  the subnormal numbers. Both operands of the one division in the program are
  converted integers, so they are finite.
\<close>

datatype float64 = Finite real | Infinity bool | NaN

definition roundHalfEven :: "real \<Rightarrow> int" where
  "roundHalfEven x =
     (if x - real_of_int \<lfloor>x\<rfloor> < 1 / 2 then \<lfloor>x\<rfloor>
      else if 1 / 2 < x - real_of_int \<lfloor>x\<rfloor> then \<lfloor>x\<rfloor> + 1
      else if even \<lfloor>x\<rfloor> then \<lfloor>x\<rfloor>
      else \<lfloor>x\<rfloor> + 1)"

definition round64 :: "real \<Rightarrow> real" where
  "round64 x =
     (if x = 0 then 0
      else real_of_int (roundHalfEven (x / 2 powr real_of_int (\<lfloor>log 2 \<bar>x\<bar>\<rfloor> - 52)))
           * 2 powr real_of_int (\<lfloor>log 2 \<bar>x\<bar>\<rfloor> - 52))"

definition float64_of_int :: "int \<Rightarrow> real" where
  "float64_of_int i = round64 (real_of_int i)"

definition float64_div :: "real \<Rightarrow> real \<Rightarrow> float64" where
  "float64_div a b =
     (if b = 0 then (if a = 0 then NaN else Infinity (a < 0)) else Finite (round64 (a / b)))"

fun float64_mul :: "float64 \<Rightarrow> real \<Rightarrow> float64" where
  "float64_mul (Finite a) b = Finite (round64 (a * b))"
| "float64_mul (Infinity neg) b =
     (if b = 0 then NaN else Infinity (if b < 0 then \<not> neg else neg))"
| "float64_mul NaN b = NaN"

section \<open>Outcomes of a call\<close>

text \<open>
  A call returns, panics (which ends the process: nothing recovers), or blocks for
  ever on a mutex that is never released.
\<close>

datatype 'a outcome = Done 'a | Panic | Hang

fun andThen :: "'a outcome \<Rightarrow> ('a \<Rightarrow> 'b outcome) \<Rightarrow> 'b outcome" where
  "andThen (Done x) f = f x"
| "andThen Panic f = Panic"
| "andThen Hang f = Hang"

section \<open>Data of the program\<close>

record CommandConfig =
  Type :: gostring
  Response :: gostring
  Endpoint :: gostring
  Cooldown :: int

text \<open>
  A value of \<^verbatim>\<open>time.Time\<close> as \<^verbatim>\<open>time.Now\<close> returns it: the wall clock in seconds
  since 1970 and the monotonic clock in nanoseconds.
\<close>

record Time =
  unix :: int
  monotonic :: int

record PlayerCacheEntry =
  GameName :: gostring
  TagLine :: gostring
  PUUID :: gostring
  SummonerID :: gostring
  CachedAt :: int

type_synonym PlayerCache = "gostring \<rightharpoonup> PlayerCacheEntry"

text \<open>The fields of \<^verbatim>\<open>LeagueEntry\<close> that the program reads.\<close>

record LeagueEntry =
  QueueType :: gostring
  Tier :: gostring
  Rank :: gostring
  LeaguePoints :: int

text \<open>
  \<^verbatim>\<open>StreamStatsCacheEntry\<close>; its field \<^verbatim>\<open>CachedAt\<close> is \<open>StatsCachedAt\<close> here, the
  name being taken by the record above.
\<close>

record StreamStatsCacheEntry =
  Wins :: int
  Losses :: int
  Winrate :: float64
  LPStart :: "gostring \<rightharpoonup> int"
  LPEnd :: "gostring \<rightharpoonup> int"
  StatsCachedAt :: int

text \<open>
  An element of the array \<^verbatim>\<open>participants\<close> of a decoded match: not a JSON object, or
  an object, of which the loop reads \<^verbatim>\<open>puuid\<close> (present here when it is a string) and
  \<^verbatim>\<open>win\<close> (present when it is a boolean).
\<close>

datatype participant = NotAnObject | Participant "gostring option" "bool option"

section \<open>The environment\<close>

text \<open>
  What \<^verbatim>\<open>httpClient.Do\<close> gives back: an error with its message, or a response with
  its status code and body.
\<close>

datatype http_result = DoError gostring | HTTPResponse int gostring

text \<open>
  The file of champion names as \<^verbatim>\<open>LoadChampionMap\<close> meets it: unreadable, not the
  JSON of a \<^verbatim>\<open>map[string]string\<close>, or such a map, given as its entries in the order
  in which the \<^verbatim>\<open>range\<close> loop visits them.
\<close>

datatype champions_file = Unreadable | Malformed | Champions "(gostring \<times> gostring) list"

text \<open>
  Everything the program takes from outside and from packages that are not part of the
  repository: the clock (the \<open>k\<close>-th reading of \<^verbatim>\<open>time.Now\<close>), the case table of
  package unicode, the environment variables, the token that \<^verbatim>\<open>RefreshAppToken\<close>
  stored, the answer to the \<open>n\<close>-th HTTP request, whether \<^verbatim>\<open>http.NewRequest\<close> accepts a
  URL, the files, and the decoders of packages encoding/json, time and fmt. A decoder
  whose error the program checks returns the error's message on the left (for a match,
  \<open>None\<close> when \<^verbatim>\<open>info.participants\<close> is not an array); one whose error the program
  throws away returns what was decoded. The account decodes to \<^verbatim>\<open>puuid\<close>,
  \<^verbatim>\<open>gameName\<close> and \<^verbatim>\<open>tagLine\<close>, the summoner to its \<^verbatim>\<open>id\<close>, a stream to its title
  and game.
\<close>

record env =
  clock :: "nat \<Rightarrow> Time"
  lowerTable :: "rune \<Rightarrow> rune"
  RIOT_TOKEN :: gostring
  RIOT_PLATFORM :: gostring
  RIOT_REGION :: gostring
  TWITCH_CLIENT_ID :: gostring
  TwitchAppToken :: gostring
  httpDo :: "nat \<Rightarrow> gostring \<Rightarrow> http_result"
  newRequestOk :: "gostring \<Rightarrow> bool"
  championsCacheFile :: champions_file
  writeFileOk :: bool
  decodeAccount :: "gostring \<Rightarrow> gostring + (gostring \<times> gostring \<times> gostring)"
  decodeSummoner :: "gostring \<Rightarrow> gostring + gostring"
  decodeLeague :: "gostring \<Rightarrow> LeagueEntry list"
  decodeSpectator :: "gostring \<Rightarrow> int list"
  decodeMatchIDs :: "gostring \<Rightarrow> gostring list"
  decodeMatch :: "gostring \<Rightarrow> participant list option"
  decodeStreams :: "gostring \<Rightarrow> gostring + (gostring \<times> gostring) list"
  decodeStartedAt :: "gostring \<Rightarrow> gostring list"
  parseRFC3339 :: "gostring \<Rightarrow> int"
  formatFloat2 :: "float64 \<Rightarrow> gostring"

section \<open>The state of the process\<close>

text \<open>
  The globals of the program and what it has done to the outside: the cooldown table
  \<^verbatim>\<open>lastUsed\<close> of \<^verbatim>\<open>main\<close>, \<^verbatim>\<open>championsMap\<close> (\<open>None\<close> is \<^verbatim>\<open>nil\<close>), whether
  \<^verbatim>\<open>championsMu\<close> is held, \<^verbatim>\<open>streamCache\<close>, the file \<^verbatim>\<open>players.json\<close> (\<open>None\<close> when
  it does not exist, else the cache that reading and decoding it yields, which is what
  was last written to it), the URLs requested so
  far, the number of clock readings taken, and the frames written to the connection.
  The other two mutexes are locked and unlocked without a call in between that locks
  them again, and only the goroutine of \<^verbatim>\<open>main\<close> calls the handlers, so they are
  not represented.
\<close>

record state =
  lastUsed :: "gostring \<rightharpoonup> Time"
  championsMap :: "(int \<rightharpoonup> gostring) option"
  championsMu :: bool
  streamCache :: "gostring \<rightharpoonup> StreamStatsCacheEntry"
  playerCacheFile :: "PlayerCache option"
  requests :: "gostring list"
  ticks :: nat
  conn :: "gostring list"

definition time_Now :: "env \<Rightarrow> state \<Rightarrow> Time \<times> state" where
  "time_Now e st = (clock e (ticks st), st\<lparr>ticks := Suc (ticks st)\<rparr>)"

text \<open>\<^verbatim>\<open>time.Since(t)\<close> is \<^verbatim>\<open>time.Now().Sub(t)\<close>, on the monotonic readings.\<close>

definition time_Since :: "env \<Rightarrow> state \<Rightarrow> Time \<Rightarrow> int \<times> state" where
  "time_Since e st t =
     (case time_Now e st of (now, st') \<Rightarrow> (subMono (monotonic now) (monotonic t), st'))"

section \<open>Requests to the Riot API\<close>

definition platformStr :: "env \<Rightarrow> gostring" where
  "platformStr e = (if RIOT_PLATFORM e = [] then lit ''na1'' else RIOT_PLATFORM e)"

definition regionStr :: "env \<Rightarrow> gostring" where
  "regionStr e = (if RIOT_REGION e = [] then lit ''americas'' else RIOT_REGION e)"

text \<open>
  One HTTP exchange: \<^verbatim>\<open>http.NewRequest\<close>, whose error the callers throw away, so that
  a URL it refuses leaves a nil request and the next line panics; then
  \<^verbatim>\<open>Do\<close>. The URL is appended to \<open>requests\<close>.
\<close>

definition httpGet :: "env \<Rightarrow> gostring \<Rightarrow> state \<Rightarrow> (http_result \<times> state) outcome" where
  "httpGet e url st =
     (if newRequestOk e url
      then Done (httpDo e (length (requests st)) url, st\<lparr>requests := requests st @ [url]\<rparr>)
      else Panic)"

definition makeRequest ::
  "env \<Rightarrow> gostring \<Rightarrow> gostring \<Rightarrow> state \<Rightarrow> ((gostring + gostring) \<times> state) outcome" where
  "makeRequest e hostType path st =
     (if RIOT_TOKEN e = [] then Done (Inl (lit ''RIOT_TOKEN not set''), st)
      else if hostType = lit ''platform'' \<or> hostType = lit ''regional'' then
        andThen
          (httpGet e
             (lit ''https://''
              @ (if hostType = lit ''platform'' then platformStr e else regionStr e)
              @ lit ''.api.riotgames.com'' @ path) st)
          (\<lambda>(res, st').
             case res of
               DoError msg \<Rightarrow> Done (Inl msg, st')
             | HTTPResponse code b \<Rightarrow>
                 if code = 200 then Done (Inr b, st')
                 else Done (Inl (lit ''request failed '' @ itoa code @ lit '': '' @ b), st'))
      else Done (Inl (lit ''invalid hostType: '' @ hostType), st))"

definition urlEscape :: "gostring \<Rightarrow> gostring" where
  "urlEscape s = concat (map (\<lambda>c. if c = 32 then lit ''%20'' else [c]) s)"

section \<open>Player caching\<close>

text \<open>
  \<^verbatim>\<open>GetOrCachePlayer\<close> reads the cache from the file on every call; \<^verbatim>\<open>os.WriteFile\<close>
  may fail, its error is thrown away, and a failed write leaves the file as it was.
\<close>

definition GetOrCachePlayer ::
  "env \<Rightarrow> gostring \<Rightarrow> gostring \<Rightarrow> state \<Rightarrow> ((gostring + gostring) \<times> state) outcome" where
  "GetOrCachePlayer e gameName tagLine st =
     (let cache = (case playerCacheFile st of None \<Rightarrow> Map.empty | Some c \<Rightarrow> c);
          key = gameName @ lit ''#'' @ tagLine
      in case cache key of
           Some p \<Rightarrow> Done (Inr (PUUID p), st)
         | None \<Rightarrow>
             andThen
               (makeRequest e (lit ''regional'')
                  (lit ''/riot/account/v1/accounts/by-riot-id/'' @ urlEscape gameName
                   @ lit ''/'' @ urlEscape tagLine) st)
               (\<lambda>(r1, st1).
                  case r1 of
                    Inl err \<Rightarrow> Done (Inl err, st1)
                  | Inr data \<Rightarrow>
                      (case decodeAccount e data of
                         Inl err \<Rightarrow> Done (Inl err, st1)
                       | Inr (accPUUID, accGameName, accTagLine) \<Rightarrow>
                           andThen
                             (makeRequest e (lit ''platform'')
                                (lit ''/lol/summoner/v4/summoners/by-puuid/'' @ accPUUID) st1)
                             (\<lambda>(r2, st2).
                                case r2 of
                                  Inl err \<Rightarrow> Done (Inl err, st2)
                                | Inr summonerData \<Rightarrow>
                                    (case decodeSummoner e summonerData of
                                       Inl err \<Rightarrow> Done (Inl err, st2)
                                     | Inr sID \<Rightarrow>
                                         (case time_Now e st2 of
                                            (now, st3) \<Rightarrow>
                                              Done (Inr accPUUID,
                                                if writeFileOk e
                                                then st3\<lparr>playerCacheFile :=
                                                  Some (cache(key \<mapsto>
                                                    \<lparr>GameName = accGameName,
                                                     TagLine = accTagLine,
                                                     PUUID = accPUUID,
                                                     SummonerID = sID,
                                                     CachedAt = unix now\<rparr>))\<rparr>
                                                else st3)))))))"

section \<open>Champion cache\<close>

text \<open>
  \<^verbatim>\<open>sync.Mutex\<close> is not reentrant: \<^verbatim>\<open>Lock\<close> on a held mutex blocks until another
  goroutine unlocks it, and no other goroutine touches \<^verbatim>\<open>championsMu\<close>. The deferred
  \<^verbatim>\<open>Unlock\<close> runs at every return. The errors carry the fixed part of their message.
\<close>

definition insertChampion :: "gostring \<times> gostring \<Rightarrow> (int \<rightharpoonup> gostring) \<Rightarrow> (int \<rightharpoonup> gostring)" where
  "insertChampion kv m = (case Atoi (fst kv) of None \<Rightarrow> m | Some i \<Rightarrow> m(i \<mapsto> snd kv))"

definition LoadChampionMap :: "env \<Rightarrow> state \<Rightarrow> (gostring option \<times> state) outcome" where
  "LoadChampionMap e st =
     (if championsMu st then Hang
      else if championsMap st \<noteq> None then Done (None, st\<lparr>championsMu := False\<rparr>)
      else case championsCacheFile e of
             Unreadable \<Rightarrow>
               Done (Some (lit ''failed to read champions.json''), st\<lparr>championsMu := False\<rparr>)
           | Malformed \<Rightarrow>
               Done (Some (lit ''failed to parse champions.json''), st\<lparr>championsMu := False\<rparr>)
           | Champions kvs \<Rightarrow>
               Done (None,
                 st\<lparr>championsMap := Some (fold insertChampion kvs Map.empty),
                    championsMu := False\<rparr>))"

definition unknownChampion :: "int \<Rightarrow> gostring" where
  "unknownChampion i = lit ''Unknown('' @ itoa i @ lit '')''"

definition lookupChampion :: "int \<Rightarrow> state \<Rightarrow> gostring" where
  "lookupChampion i st =
     (case championsMap st of
        None \<Rightarrow> unknownChampion i
      | Some m \<Rightarrow> (case m i of Some name \<Rightarrow> name | None \<Rightarrow> unknownChampion i))"

text \<open>
  \<^verbatim>\<open>GetChampionName\<close> takes the mutex and, when the map is nil, calls
  \<^verbatim>\<open>LoadChampionMap\<close> while holding it.
\<close>

definition GetChampionName :: "env \<Rightarrow> int \<Rightarrow> state \<Rightarrow> (gostring \<times> state) outcome" where
  "GetChampionName e i st =
     (if championsMu st then Hang
      else if championsMap st = None then
        andThen (LoadChampionMap e (st\<lparr>championsMu := True\<rparr>))
          (\<lambda>(err, st').
             case err of
               Some _ \<Rightarrow> Done (unknownChampion i, st'\<lparr>championsMu := False\<rparr>)
             | None \<Rightarrow> Done (lookupChampion i st', st'\<lparr>championsMu := False\<rparr>))
      else Done (lookupChampion i st, st\<lparr>championsMu := False\<rparr>))"

section \<open>Current rank and active game bans\<close>

definition GetCurrentRank ::
  "env \<Rightarrow> gostring \<Rightarrow> state \<Rightarrow> ((gostring + LeagueEntry list) \<times> state) outcome" where
  "GetCurrentRank e puuid st =
     andThen (makeRequest e (lit ''platform'') (lit ''/lol/league/v4/entries/by-puuid/'' @ puuid) st)
       (\<lambda>(r, st').
          case r of
            Inl err \<Rightarrow> Done (Inl err, st')
          | Inr data \<Rightarrow> Done (Inr (decodeLeague e data), st'))"

fun banNames ::
  "env \<Rightarrow> int list \<Rightarrow> gostring list \<Rightarrow> state \<Rightarrow> (gostring list \<times> state) outcome" where
  "banNames e [] bans st = Done (bans, st)"
| "banNames e (championID # rest) bans st =
     (case GetChampionName e championID st of
        Done (name, st') \<Rightarrow> banNames e rest (bans @ [name]) st'
      | Panic \<Rightarrow> Panic
      | Hang \<Rightarrow> Hang)"

definition GetActiveMatchBans ::
  "env \<Rightarrow> gostring \<Rightarrow> state \<Rightarrow> ((gostring + gostring list) \<times> state) outcome" where
  "GetActiveMatchBans e puuid st =
     andThen
       (makeRequest e (lit ''platform'')
          (lit ''/lol/spectator/v5/active-games/by-summoner/'' @ puuid) st)
       (\<lambda>(r, st').
          case r of
            Inl err \<Rightarrow>
              if Contains err (lit ''404'') then Done (Inr [], st') else Done (Inl err, st')
          | Inr data \<Rightarrow>
              andThen (banNames e (decodeSpectator e data) [] st')
                (\<lambda>(bans, st''). Done (Inr bans, st'')))"

section \<open>Stream stats\<close>

text \<open>
  The inner loop of \<^verbatim>\<open>GetStreamStats\<close>: the first participant object whose
  \<^verbatim>\<open>puuid\<close> is the subject's decides the match, a win when \<^verbatim>\<open>win\<close> is the boolean
  true and a loss otherwise; \<open>None\<close> when no participant is the subject.
\<close>

fun matchResult :: "gostring \<Rightarrow> participant list \<Rightarrow> bool option" where
  "matchResult puuid [] = None"
| "matchResult puuid (NotAnObject # ps) = matchResult puuid ps"
| "matchResult puuid (Participant p w # ps) =
     (if p = Some puuid then Some (w = Some True) else matchResult puuid ps)"

text \<open>The outer loop: a match whose request or shape fails is skipped.\<close>

fun countMatches ::
  "env \<Rightarrow> gostring \<Rightarrow> gostring list \<Rightarrow> int \<Rightarrow> int \<Rightarrow> state \<Rightarrow> ((int \<times> int) \<times> state) outcome" where
  "countMatches e puuid [] wins losses st = Done ((wins, losses), st)"
| "countMatches e puuid (matchID # rest) wins losses st =
     (case makeRequest e (lit ''regional'') (lit ''/lol/match/v5/matches/'' @ matchID) st of
        Done (r, st') \<Rightarrow>
          (case r of
             Inl err \<Rightarrow> countMatches e puuid rest wins losses st'
           | Inr matchData \<Rightarrow>
               (case decodeMatch e matchData of
                  None \<Rightarrow> countMatches e puuid rest wins losses st'
                | Some participants \<Rightarrow>
                    (case matchResult puuid participants of
                       None \<Rightarrow> countMatches e puuid rest wins losses st'
                     | Some win \<Rightarrow>
                         if win then countMatches e puuid rest (wins + 1) losses st'
                         else countMatches e puuid rest wins (losses + 1) st')))
      | Panic \<Rightarrow> Panic
      | Hang \<Rightarrow> Hang)"

definition winrateOf :: "int \<Rightarrow> int \<Rightarrow> float64" where
  "winrateOf wins losses =
     (if wins + losses > 0
      then float64_mul (float64_div (float64_of_int wins) (float64_of_int (wins + losses))) 100
      else Finite 0)"

definition GetStreamStats ::
  "env \<Rightarrow> gostring \<Rightarrow> int \<Rightarrow> state \<Rightarrow> ((gostring + StreamStatsCacheEntry) \<times> state) outcome" where
  "GetStreamStats e puuid startTime st =
     (case time_Now e st of
        (t0, st0) \<Rightarrow>
          (case streamCache st0 (puuid @ lit ''_'' @ itoa startTime) of
             Some val \<Rightarrow> Done (Inr val, st0)
           | None \<Rightarrow>
               andThen
                 (makeRequest e (lit ''regional'')
                    (lit ''/lol/match/v5/matches/by-puuid/'' @ puuid @ lit ''/ids?startTime=''
                     @ itoa startTime @ lit ''&endTime='' @ itoa (unix t0)) st0)
                 (\<lambda>(r, st1).
                    case r of
                      Inl err \<Rightarrow> Done (Inl err, st1)
                    | Inr data \<Rightarrow>
                        andThen (countMatches e puuid (decodeMatchIDs e data) 0 0 st1)
                          (\<lambda>((wins, losses), st2).
                             andThen (GetCurrentRank e puuid st2)
                               (\<lambda>(rk, st3).
                                  case time_Now e st3 of
                                    (t1, st4) \<Rightarrow>
                                      (let ranks = (case rk of Inl _ \<Rightarrow> [] | Inr rs \<Rightarrow> rs);
                                           entry =
                                             \<lparr>Wins = wins, Losses = losses,
                                              Winrate = winrateOf wins losses,
                                              LPStart = fold (\<lambda>r m. m(QueueType r \<mapsto>
                                                wrap64 (LeaguePoints r - (wins - losses)))) ranks Map.empty,
                                              LPEnd = fold (\<lambda>r m. m(QueueType r \<mapsto> LeaguePoints r))
                                                ranks Map.empty,
                                              StatsCachedAt = unix t1\<rparr>
                                       in Done (Inr entry,
                                            st4\<lparr>streamCache :=
                                              (streamCache st4)
                                                (puuid @ lit ''_'' @ itoa startTime \<mapsto> entry)\<rparr>)))))))"

section \<open>Requests to the Twitch API\<close>

definition streamsURL :: "gostring \<Rightarrow> gostring" where
  "streamsURL channel = lit ''https://api.twitch.tv/helix/streams?user_login='' @ channel"

definition GetTwitchStreamInfo ::
  "env \<Rightarrow> gostring \<Rightarrow> state \<Rightarrow> ((gostring + (gostring \<times> gostring)) \<times> state) outcome" where
  "GetTwitchStreamInfo e channel st =
     (if TWITCH_CLIENT_ID e = [] \<or> TwitchAppToken e = []
      then Done (Inl (lit ''Twitch App Token not set''), st)
      else andThen (httpGet e (streamsURL channel) st)
        (\<lambda>(res, st').
           case res of
             DoError msg \<Rightarrow> Done (Inl msg, st')
           | HTTPResponse code body \<Rightarrow>
               (case decodeStreams e body of
                  Inl err \<Rightarrow> Done (Inl err, st')
                | Inr [] \<Rightarrow> Done (Inr (lit ''Offline'', []), st')
                | Inr ((title, game) # _) \<Rightarrow> Done (Inr (title, game), st'))))"

text \<open>
  \<^verbatim>\<open>GetTwitchStreamStart\<close> returns a number beside its error, \<open>0\<close> when there is one,
  and \<^verbatim>\<open>main\<close> goes on to use the number.
\<close>

definition GetTwitchStreamStart ::
  "env \<Rightarrow> gostring \<Rightarrow> state \<Rightarrow> ((int \<times> gostring option) \<times> state) outcome" where
  "GetTwitchStreamStart e channel st =
     (if TWITCH_CLIENT_ID e = [] \<or> TwitchAppToken e = []
      then Done ((0, Some (lit ''Twitch App Token not set'')), st)
      else andThen (httpGet e (streamsURL channel) st)
        (\<lambda>(res, st').
           case res of
             DoError msg \<Rightarrow> Done ((0, Some msg), st')
           | HTTPResponse code body \<Rightarrow>
               (case decodeStartedAt e body of
                  [] \<Rightarrow> Done ((0, Some (lit ''stream not live'')), st')
                | startedAt # _ \<Rightarrow> Done ((parseRFC3339 e startedAt, None), st'))))"

section \<open>The dispatch loop of main\<close>

text \<open>What \<^verbatim>\<open>main\<close> fixed before the loop: the channel, the subject and the commands.\<close>

record bot =
  channel :: gostring
  puuid :: gostring
  commands :: "gostring \<rightharpoonup> CommandConfig"

definition say :: "gostring \<Rightarrow> gostring \<Rightarrow> state \<Rightarrow> state" where
  "say chan msg st =
     st\<lparr>conn := conn st @ [lit ''PRIVMSG #'' @ chan @ lit '' :'' @ msg @ [13, 10]]\<rparr>"

definition twitch_stream_info :: "env \<Rightarrow> bot \<Rightarrow> gostring \<Rightarrow> state \<Rightarrow> state outcome" where
  "twitch_stream_info e b user st =
     andThen (GetTwitchStreamInfo e (channel b) st)
       (\<lambda>(r, st').
          case r of
            Inl err \<Rightarrow>
              Done (say (channel b) (lit ''@'' @ user @ lit '' Error fetching stream info.'') st')
          | Inr (title, game) \<Rightarrow>
              if title = lit ''Offline''
              then Done (say (channel b) (lit ''@'' @ user @ lit '' Stream is offline.'') st')
              else Done (say (channel b)
                     (lit ''@'' @ user @ lit '' Title: '' @ title @ lit '' | Game: '' @ game) st'))"

text \<open>
  On an error \<^verbatim>\<open>GetCurrentRank\<close> returns a nil slice; the error is logged and the
  next statement indexes the slice at \<open>0\<close>, which panics when it is empty.
\<close>

definition riot_rank_info :: "env \<Rightarrow> bot \<Rightarrow> gostring \<Rightarrow> state \<Rightarrow> state outcome" where
  "riot_rank_info e b user st =
     andThen (GetCurrentRank e (puuid b) st)
       (\<lambda>(r, st').
          case (case r of Inl err \<Rightarrow> [] | Inr ranks \<Rightarrow> ranks) of
            [] \<Rightarrow> Panic
          | rank0 # _ \<Rightarrow>
              Done (say (channel b)
                (lit ''@'' @ user @ lit '' Current Rank: '' @ Tier rank0 @ lit '' '' @ Rank rank0
                 @ lit '' '' @ itoa (LeaguePoints rank0)) st'))"

definition stream_stats_info :: "env \<Rightarrow> bot \<Rightarrow> gostring \<Rightarrow> state \<Rightarrow> state outcome" where
  "stream_stats_info e b user st =
     andThen (GetTwitchStreamStart e (channel b) st)
       (\<lambda>((start, err), st1).
          andThen
            (GetStreamStats e (puuid b) start
               (case err of
                  Some _ \<Rightarrow>
                    say (channel b) (lit ''@'' @ user @ lit '' Error fetching stream info.'') st1
                | None \<Rightarrow> st1))
            (\<lambda>(r, st2).
               case r of
                 Inl _ \<Rightarrow>
                   Done (say (channel b) (lit ''@'' @ user @ lit '' Error Fetching stream stats.'') st2)
               | Inr stats \<Rightarrow>
                   Done (say (channel b)
                     (lit ''@'' @ user @ lit '' Wins: '' @ itoa (Wins stats) @ lit '' | Loss: ''
                      @ itoa (Losses stats) @ lit '' | Winrate: '' @ formatFloat2 e (Winrate stats)
                      @ lit ''% '') st2)))"

definition current_bans_info :: "env \<Rightarrow> bot \<Rightarrow> gostring \<Rightarrow> state \<Rightarrow> state outcome" where
  "current_bans_info e b user st =
     andThen (GetActiveMatchBans e (puuid b) st)
       (\<lambda>(r, st').
          case r of
            Inl err \<Rightarrow>
              Done (say (channel b) (lit ''@'' @ user @ lit '' Not in an Active Match'') st')
          | Inr bans \<Rightarrow>
              Done (say (channel b)
                (lit ''@'' @ user @ lit '' Banned Champions: '' @ Join bans (lit '', '')) st'))"

text \<open>The \<^verbatim>\<open>switch\<close> on the type and the endpoint; neither has a default case.\<close>

definition handler :: "env \<Rightarrow> bot \<Rightarrow> CommandConfig \<Rightarrow> gostring \<Rightarrow> state \<Rightarrow> state outcome" where
  "handler e b cfg user st =
     (if Type cfg = lit ''static''
      then Done (say (channel b) (lit ''@'' @ user @ lit '' '' @ Response cfg) st)
      else if Type cfg = lit ''api'' then
        (if Endpoint cfg = lit ''twitch_stream_info'' then twitch_stream_info e b user st
         else if Endpoint cfg = lit ''riot_rank_info'' then riot_rank_info e b user st
         else if Endpoint cfg = lit ''stream_stats_info'' then stream_stats_info e b user st
         else if Endpoint cfg = lit ''current_bans_info'' then current_bans_info e b user st
         else Done st)
      else Done st)"

text \<open>
  From the lookup in \<^verbatim>\<open>commands\<close> to the end of the loop body: a miss and a
  command still cooling down end the iteration; otherwise the handler runs and
  \<^verbatim>\<open>lastUsed\<close> takes the time after it. The cooldown is an \<^verbatim>\<open>int\<close>, converted to a
  \<^verbatim>\<open>time.Duration\<close> and multiplied by \<^verbatim>\<open>time.Second\<close>; the test of
  \<^verbatim>\<open>lastUsed\<close> is \<open>coolingDown\<close>, which reads the clock only when there is an entry.
\<close>

definition coolingDown :: "env \<Rightarrow> CommandConfig \<Rightarrow> gostring \<Rightarrow> state \<Rightarrow> bool \<times> state" where
  "coolingDown e cfg command st =
     (case lastUsed st command of
        None \<Rightarrow> (False, st)
      | Some t \<Rightarrow>
          (case time_Since e st t of
             (d, st1) \<Rightarrow> (d < wrap64 (Cooldown cfg * 1000000000), st1)))"

definition dispatch :: "env \<Rightarrow> bot \<Rightarrow> gostring \<Rightarrow> gostring \<Rightarrow> state \<Rightarrow> state outcome" where
  "dispatch e b user msg st =
     (let command = cleanKey (lowerTable e) msg in
      case commands b command of
        None \<Rightarrow> Done st
      | Some cfg \<Rightarrow>
          (case coolingDown e cfg command st of
             (cooling, st1) \<Rightarrow>
               if cooling then Done st1
               else andThen (handler e b cfg user st1)
                 (\<lambda>st2. case time_Now e st2 of
                    (now, st3) \<Rightarrow> Done (st3\<lparr>lastUsed := (lastUsed st3)(command \<mapsto> now)\<rparr>))))"

text \<open>
  One iteration of the loop on a line that was read: the keepalive, then the split of a
  user message. Indexing a slice beyond its length panics.
\<close>

definition handleLine :: "env \<Rightarrow> bot \<Rightarrow> gostring \<Rightarrow> state \<Rightarrow> state outcome" where
  "handleLine e b rawLine st =
     (let line = TrimSpace rawLine in
      if HasPrefix line (lit ''PING'')
      then Done (st\<lparr>conn := conn st @ [lit ''PONG :tmi.twitch.tv'' @ [13, 10]]\<rparr>)
      else if Contains line (lit ''PRIVMSG'') then
        (case Split line (lit ''PRIVMSG'') of
           parts0 # parts1 # _ \<Rightarrow>
             (case Split parts0 (lit ''!'') of
                [] \<Rightarrow> Panic
              | rawUser # _ \<Rightarrow>
                  (case SplitN2 parts1 (lit '':'') of
                     _ # msg # _ \<Rightarrow> dispatch e b (TrimPrefix rawUser (lit '':'')) msg st
                   | _ \<Rightarrow> Panic))
         | _ \<Rightarrow> Done st)
      else Done st)"

text \<open>
  The loop: \<^verbatim>\<open>ReadString\<close> gives a line or an error, and an error ends \<^verbatim>\<open>main\<close>.
\<close>

fun mainLoop :: "env \<Rightarrow> bot \<Rightarrow> gostring option list \<Rightarrow> state \<Rightarrow> state outcome" where
  "mainLoop e b [] st = Done st"
| "mainLoop e b (None # reads) st = Done st"
| "mainLoop e b (Some line # reads) st =
     (case handleLine e b line st of
        Done st' \<Rightarrow> mainLoop e b reads st'
      | Panic \<Rightarrow> Panic
      | Hang \<Rightarrow> Hang)"

section \<open>Loading the commands\<close>

text \<open>
  \<^verbatim>\<open>loadCommands\<close> decodes the file into a Go map and copies it, key by normalised
  key, into a second map. The file is given as its members in the order in which they
  are written (a raw key written twice keeps its last value, as \<^verbatim>\<open>json.Unmarshal\<close>
  does); the \<^verbatim>\<open>range\<close> loop visits the keys of the decoded map in an order that Go
  leaves unspecified, given here as the list \<open>visit\<close>. A file that cannot be read or
  decoded ends the process before the loop.
\<close>

definition decodeCommands :: "(gostring \<times> CommandConfig) list \<Rightarrow> (gostring \<rightharpoonup> CommandConfig)" where
  "decodeCommands members = fold (\<lambda>(k, v) m. m(k \<mapsto> v)) members Map.empty"

definition normalizeInto ::
  "(rune \<Rightarrow> rune) \<Rightarrow> (gostring \<rightharpoonup> CommandConfig) \<Rightarrow> gostring
     \<Rightarrow> (gostring \<rightharpoonup> CommandConfig) \<Rightarrow> (gostring \<rightharpoonup> CommandConfig)" where
  "normalizeInto tbl decoded k normalizedCommands =
     (case decoded k of
        None \<Rightarrow> normalizedCommands
      | Some v \<Rightarrow> normalizedCommands(cleanKey tbl k \<mapsto> v))"

definition loadCommands ::
  "(rune \<Rightarrow> rune) \<Rightarrow> (gostring \<times> CommandConfig) list \<Rightarrow> gostring list
     \<Rightarrow> (gostring \<rightharpoonup> CommandConfig)" where
  "loadCommands tbl members visit =
     fold (normalizeInto tbl (decodeCommands members)) visit Map.empty"

text \<open>An order in which \<^verbatim>\<open>range\<close> may visit a map: every key once.\<close>

definition rangeOrder :: "('k \<rightharpoonup> 'v) \<Rightarrow> 'k list \<Rightarrow> bool" where
  "rangeOrder m visit = (distinct visit \<and> set visit = dom m)"

section \<open>Sample runs\<close>

text \<open>
  A concrete environment for running the definitions: the clock advances one second
  per reading, every request is answered with status 200 and an empty body that
  decodes to nothing (the stream is not live, no match was played, no league entry), and
  the file of champions holds one entry.
\<close>

definition sampleClock :: "nat \<Rightarrow> Time" where
  "sampleClock k = \<lparr>unix = 1700000000 + int k, monotonic = int k * 1000000000\<rparr>"

definition quietEnv :: env where
  "quietEnv =
     \<lparr>clock = sampleClock,
      lowerTable = caseless,
      RIOT_TOKEN = lit ''RGAPI-key'',
      RIOT_PLATFORM = [],
      RIOT_REGION = [],
      TWITCH_CLIENT_ID = lit ''client'',
      TwitchAppToken = lit ''token'',
      httpDo = (\<lambda>n url. HTTPResponse 200 []),
      newRequestOk = (\<lambda>url. True),
      championsCacheFile = Champions [(lit ''1'', lit ''Aatrox'')],
      writeFileOk = True,
      decodeAccount = (\<lambda>body. Inr (lit ''puuid-1'', lit ''Name'', lit ''TAG'')),
      decodeSummoner = (\<lambda>body. Inr (lit ''summoner-1'')),
      decodeLeague = (\<lambda>body. []),
      decodeSpectator = (\<lambda>body. []),
      decodeMatchIDs = (\<lambda>body. []),
      decodeMatch = (\<lambda>body. None),
      decodeStreams = (\<lambda>body. Inr []),
      decodeStartedAt = (\<lambda>body. []),
      parseRFC3339 = (\<lambda>s. 0),
      formatFloat2 = (\<lambda>f. lit ''0.00'')\<rparr>"

text \<open>The state when the loop starts, the champions not loaded.\<close>

definition idle :: state where
  "idle =
     \<lparr>lastUsed = Map.empty, championsMap = None, championsMu = False,
      streamCache = Map.empty, playerCacheFile = None, requests = [], ticks = 0,
      conn = []\<rparr>"

definition apiCommand :: "string \<Rightarrow> int \<Rightarrow> CommandConfig" where
  "apiCommand endpoint cooldown =
     \<lparr>Type = lit ''api'', Response = [], Endpoint = lit endpoint, Cooldown = cooldown\<rparr>"

definition staticCommand :: "string \<Rightarrow> int \<Rightarrow> CommandConfig" where
  "staticCommand response cooldown =
     \<lparr>Type = lit ''static'', Response = lit response, Endpoint = [], Cooldown = cooldown\<rparr>"

definition sampleBot :: bot where
  "sampleBot =
     \<lparr>channel = lit ''chan'',
      puuid = lit ''puuid-1'',
      commands =
        [lit ''!hello'' \<mapsto> staticCommand ''hi'' 2,
         lit ''!rank'' \<mapsto> apiCommand ''riot_rank_info'' 5,
         lit ''!stats'' \<mapsto> apiCommand ''stream_stats_info'' 5,
         lit ''!bans'' \<mapsto> apiCommand ''current_bans_info'' 5,
         lit ''!forever'' \<mapsto> staticCommand ''hi'' 9223372037]\<rparr>"

definition privmsg :: "string \<Rightarrow> string \<Rightarrow> gostring" where
  "privmsg user text =
     lit '':'' @ lit user @ lit ''!'' @ lit user @ lit ''@'' @ lit user
     @ lit ''.tmi.twitch.tv PRIVMSG #chan :'' @ lit text @ [13, 10]"

text \<open>
  A file of commands with two keys that normalise to the same token, and the two
  orders in which \<^verbatim>\<open>range\<close> may visit its keys.
\<close>

definition twoKeys :: "(gostring \<times> CommandConfig) list" where
  "twoKeys =
     [(lit ''!Hello'', staticCommand ''first'' 0), (lit ''!hello'', staticCommand ''second'' 0)]"

text \<open>
  Two calls of \<^verbatim>\<open>GetOrCachePlayer\<close> for one name and tag, one after the other: the
  results, and the number of requests made after the first and after the second call.
\<close>

definition resolveTwice ::
  "env \<Rightarrow> gostring \<Rightarrow> gostring \<Rightarrow> state
     \<Rightarrow> ((gostring + gostring) \<times> (gostring + gostring) \<times> nat \<times> nat) outcome" where
  "resolveTwice e gameName tagLine st =
     andThen (GetOrCachePlayer e gameName tagLine st)
       (\<lambda>(r1, st1).
          andThen (GetOrCachePlayer e gameName tagLine st1)
            (\<lambda>(r2, st2). Done (r1, r2, length (requests st1), length (requests st2))))"

text \<open>
  The URL that \<^verbatim>\<open>GetActiveMatchBans\<close> requests, and the two frames that
  \<^verbatim>\<open>main\<close> writes for the endpoint \<^verbatim>\<open>current_bans_info\<close>.
\<close>

definition bansURL :: "env \<Rightarrow> gostring \<Rightarrow> gostring" where
  "bansURL e p =
     lit ''https://'' @ platformStr e @ lit ''.api.riotgames.com''
     @ lit ''/lol/spectator/v5/active-games/by-summoner/'' @ p"

definition bansFrame :: "bot \<Rightarrow> gostring \<Rightarrow> gostring list \<Rightarrow> gostring" where
  "bansFrame b user bans =
     lit ''PRIVMSG #'' @ channel b @ lit '' :'' @ lit ''@'' @ user
     @ lit '' Banned Champions: '' @ Join bans (lit '', '') @ [13, 10]"

definition notInMatchFrame :: "bot \<Rightarrow> gostring \<Rightarrow> gostring" where
  "notInMatchFrame b user =
     lit ''PRIVMSG #'' @ channel b @ lit '' :'' @ lit ''@'' @ user
     @ lit '' Not in an Active Match'' @ [13, 10]"

text \<open>The sample environment with every request answered by one status and body.\<close>

definition answering :: "int \<Rightarrow> env" where
  "answering code = quietEnv\<lparr>httpDo := (\<lambda>n url. HTTPResponse code (lit ''upstream says no''))\<rparr>"

text \<open>
  The sample environment after one match, which the subject won: the third
  participant is the subject.
\<close>

definition oneWinEnv :: env where
  "oneWinEnv =
     quietEnv\<lparr>decodeMatchIDs := (\<lambda>body. [lit ''NA1_1'']),
              decodeMatch := (\<lambda>body. Some
                [NotAnObject,
                 Participant (Some (lit ''puuid-2'')) (Some False),
                 Participant (Some (lit ''puuid-1'')) (Some True)])\<rparr>"

text \<open>
  The sample environment after twenty-five matches. The body of an answer is the
  number of the request; the first request lists the matches, and the matches whose
  requests are numbered 1 to 7 are the ones the subject won.
\<close>

definition sevenWinsEnv :: env where
  "sevenWinsEnv =
     quietEnv\<lparr>httpDo := (\<lambda>n url. HTTPResponse 200 (itoa (int n))),
              decodeMatchIDs := (\<lambda>body. replicate 25 (lit ''NA1_1'')),
              decodeMatch := (\<lambda>body. Some
                [Participant (Some (lit ''puuid-1''))
                   (Some (length body = 1 \<and> hd body \<le> 55))])\<rparr>"

text \<open>The counts and the winrate of the entry that a call returned.\<close>

definition statsSummary ::
  "((gostring + StreamStatsCacheEntry) \<times> state) outcome \<Rightarrow> (int \<times> int \<times> float64) option" where
  "statsSummary r =
     (case r of
        Done (Inr entry, st) \<Rightarrow> Some (Wins entry, Losses entry, Winrate entry)
      | _ \<Rightarrow> None)"

section \<open>Evaluation\<close>

lemmas string_defs = lit_def HasPrefix_def Contains_def Split_def SplitN2_def TrimPrefix_def
  IsSpace_def TrimSpace_def unicode_ToLower_def ToLower_def strings_Map_def removeNonASCII_def
  cleanKey_def caseless_def itoa_def

lemmas program_defs = wrap64_def subMono_def time_Now_def time_Since_def platformStr_def
  regionStr_def httpGet_def makeRequest_def urlEscape_def GetOrCachePlayer_def
  LoadChampionMap_def GetChampionName_def unknownChampion_def lookupChampion_def
  GetCurrentRank_def GetActiveMatchBans_def GetStreamStats_def
  streamsURL_def GetTwitchStreamInfo_def GetTwitchStreamStart_def say_def
  twitch_stream_info_def riot_rank_info_def stream_stats_info_def current_bans_info_def
  handler_def coolingDown_def dispatch_def handleLine_def

lemmas sample_defs = sampleClock_def quietEnv_def idle_def apiCommand_def staticCommand_def
  sampleBot_def privmsg_def twoKeys_def resolveTwice_def bansURL_def bansFrame_def
  notInMatchFrame_def answering_def oneWinEnv_def sevenWinsEnv_def statsSummary_def

section \<open>Sequencing\<close>

lemma andThen_case:
  "andThen x f = (case x of Done a \<Rightarrow> f a | Panic \<Rightarrow> Panic | Hang \<Rightarrow> Hang)"
  by (cases x) auto

section \<open>Normalisation\<close>

lemma dropWhile_id: "t = [] \<or> \<not> P (hd t) \<Longrightarrow> dropWhile P t = t"
  by (cases t) auto

lemma TrimSpace_fix:
  assumes "t = [] \<or> (\<not> IsSpace (hd t) \<and> \<not> IsSpace (last t))"
  shows "TrimSpace t = t"
proof -
  have 1: "dropWhile IsSpace t = t" using assms by (intro dropWhile_id) auto
  have 2: "dropWhile IsSpace (rev t) = rev t"
    using assms by (intro dropWhile_id) (auto simp: hd_rev)
  show ?thesis by (simp add: TrimSpace_def 1 2)
qed

lemma trimmed_ends:
  "TrimSpace s = [] \<or> (\<not> IsSpace (hd (TrimSpace s)) \<and> \<not> IsSpace (last (TrimSpace s)))"
proof (cases "TrimSpace s = []")
  case True
  then show ?thesis by simp
next
  case False
  let ?ys = "dropWhile IsSpace s"
  let ?zs = "dropWhile IsSpace (rev ?ys)"
  from False have zs: "?zs \<noteq> []" by (simp add: TrimSpace_def)
  then have ys: "?ys \<noteq> []" by (cases "?ys") auto
  have a: "\<not> IsSpace (hd ?zs)" using zs by (rule hd_dropWhile)
  have "last ?zs = last (rev ?ys)" using zs
    by (metis last_appendR takeWhile_dropWhile_id)
  then have b: "\<not> IsSpace (last ?zs)"
    using ys hd_dropWhile[OF ys] by (simp add: last_rev)
  show ?thesis using a b zs by (simp add: TrimSpace_def hd_rev last_rev)
qed

lemma set_TrimSpace: "r \<in> set (TrimSpace s) \<Longrightarrow> r \<in> set s"
  unfolding TrimSpace_def by (auto dest!: set_dropWhileD)

lemma strings_Map_ascii: "\<forall>r\<in>set s. r \<le> 127 \<Longrightarrow> strings_Map removeNonASCII s = s"
  by (induction s) (auto simp: strings_Map_def removeNonASCII_def)

lemma ToLower_lower:
  "\<forall>r\<in>set s. r \<le> 127 \<and> \<not> (65 \<le> r \<and> r \<le> 90) \<Longrightarrow> ToLower tbl s = s"
  by (induction s) (auto simp: ToLower_def unicode_ToLower_def)

lemma cleanKey_runes:
  assumes "\<forall>r\<in>set s. 127 < r \<longrightarrow> \<not> (65 \<le> tbl r \<and> tbl r \<le> 90)"
    and "r \<in> set (cleanKey tbl s)"
  shows "r \<le> 127 \<and> \<not> (65 \<le> r \<and> r \<le> 90)"
proof -
  from assms(2) obtain x where x: "x \<in> set (TrimSpace s)"
    and r: "r = nat (removeNonASCII (unicode_ToLower tbl x))"
    and pos: "0 \<le> removeNonASCII (unicode_ToLower tbl x)"
    by (auto simp: cleanKey_def strings_Map_def ToLower_def)
  have xs: "x \<in> set s" using x by (rule set_TrimSpace)
  show ?thesis
  proof (cases "x \<le> 127")
    case True
    then show ?thesis
      using r pos by (auto simp: removeNonASCII_def unicode_ToLower_def split: if_splits)
  next
    case False
    then have "\<not> (65 \<le> tbl x \<and> tbl x \<le> 90)" using assms(1) xs by auto
    then show ?thesis
      using False r pos by (auto simp: removeNonASCII_def unicode_ToLower_def split: if_splits)
  qed
qed

lemma cleanKey_ascii:
  assumes "\<forall>r\<in>set s. r \<le> 127"
  shows "cleanKey tbl s = map (unicode_ToLower tbl) (TrimSpace s)"
proof -
  have "\<forall>r\<in>set (ToLower tbl (TrimSpace s)). r \<le> 127"
    using assms by (auto simp: ToLower_def unicode_ToLower_def dest!: set_TrimSpace)
  then show ?thesis
    by (simp add: cleanKey_def strings_Map_ascii) (simp add: ToLower_def)
qed

lemma IsSpace_lower: "r \<le> 127 \<Longrightarrow> IsSpace (unicode_ToLower tbl r) = IsSpace r"
  by (auto simp: unicode_ToLower_def IsSpace_def)

lemma cleanKey_ascii_trimmed:
  assumes "\<forall>r\<in>set s. r \<le> 127"
  shows "TrimSpace (cleanKey tbl s) = cleanKey tbl s"
proof (cases "TrimSpace s = []")
  case True
  have "TrimSpace [] = []" by (simp add: TrimSpace_def)
  then show ?thesis using True by (simp add: cleanKey_ascii[OF assms])
next
  case False
  have h: "hd (TrimSpace s) \<le> 127" and l: "last (TrimSpace s) \<le> 127"
    using False assms set_TrimSpace[of _ s] by (auto simp: hd_in_set last_in_set)
  have "\<not> IsSpace (hd (TrimSpace s))" "\<not> IsSpace (last (TrimSpace s))"
    using trimmed_ends[of s] False by auto
  then show ?thesis
    using False h l
    by (intro TrimSpace_fix)
       (simp add: cleanKey_ascii[OF assms] hd_map last_map IsSpace_lower)
qed

text \<open>
  C4, as the claim states it, fails: the message U+00E9, space, \<open>a\<close> is normalised to
  space, \<open>a\<close> (the trimming comes before the removal of U+00E9, which uncovers the
  space), and normalising that gives \<open>a\<close>.
\<close>

theorem normalize_not_idempotent:
  "cleanKey caseless (cleanKey caseless [233, 32, 97]) \<noteq> cleanKey caseless [233, 32, 97]"
  by (simp add: string_defs)

text \<open>
  C4, amended: a second normalisation does nothing but trim the spaces that the
  removal of non-ASCII runes uncovered at the ends, and the normalisation is idempotent
  on every string of ASCII runes. The case table of package unicode is taken never to
  give a capital ASCII letter as the lower case of a rune above 127.
\<close>

theorem normalize_twice:
  assumes "\<forall>r\<in>set s. 127 < r \<longrightarrow> \<not> (65 \<le> tbl r \<and> tbl r \<le> 90)"
  shows "cleanKey tbl (cleanKey tbl s) = TrimSpace (cleanKey tbl s)
       \<and> ((\<forall>r\<in>set s. r \<le> 127) \<longrightarrow> cleanKey tbl (cleanKey tbl s) = cleanKey tbl s)"
proof -
  let ?n = "cleanKey tbl s"
  have runes: "\<forall>r\<in>set (TrimSpace ?n). r \<le> 127 \<and> \<not> (65 \<le> r \<and> r \<le> 90)"
    using cleanKey_runes[OF assms] set_TrimSpace[of _ ?n] by blast
  have 1: "cleanKey tbl ?n = TrimSpace ?n"
    unfolding cleanKey_def[of tbl ?n]
    using runes by (simp add: ToLower_lower strings_Map_ascii)
  show ?thesis using 1 cleanKey_ascii_trimmed[of s tbl] by simp
qed

theorem normalize_twice_witness:
  "cleanKey caseless (cleanKey caseless [32, 72, 233, 32, 105, 32, 233]) = [104, 32, 105]
   \<and> TrimSpace (cleanKey caseless [32, 72, 233, 32, 105, 32, 233]) = [104, 32, 105]
   \<and> cleanKey caseless (cleanKey caseless [32, 33, 72, 105, 32]) = [33, 104, 105]
   \<and> cleanKey caseless [32, 33, 72, 105, 32] = [33, 104, 105]"
proof -
  have a: "\<forall>r\<in>set [32, 72, 233, 32, 105, 32, 233::nat].
             127 < r \<longrightarrow> \<not> (65 \<le> caseless r \<and> caseless r \<le> 90)"
    by (simp add: caseless_def)
  have b: "\<forall>r\<in>set [32, 33, 72, 105, 32::nat].
             127 < r \<longrightarrow> \<not> (65 \<le> caseless r \<and> caseless r \<le> 90)"
    by (simp add: caseless_def)
  have c: "\<forall>r\<in>set [32, 33, 72, 105, 32::nat]. r \<le> 127" by simp
  have e1: "cleanKey caseless [32, 72, 233, 32, 105, 32, 233] = [104, 32, 105, 32]"
    by (simp add: string_defs)
  have e2: "TrimSpace [104, 32, 105, 32] = [104, 32, 105]"
    by (simp add: string_defs)
  have e3: "cleanKey caseless [32, 33, 72, 105, 32] = [33, 104, 105]"
    by (simp add: string_defs)
  have e4: "TrimSpace [33, 104, 105] = [33, 104, 105]"
    by (simp add: string_defs)
  show ?thesis
    using normalize_twice[OF a] normalize_twice[OF b] c e1 e2 e3 e4 by simp
qed

section \<open>Panics and deadlock in the dispatch loop\<close>

text \<open>
  C1: the network is down and \<open>bob\<close> sends \<open>!rank\<close>. \<^verbatim>\<open>GetCurrentRank\<close> returns its
  error, \<^verbatim>\<open>main\<close> logs it and then indexes the nil slice: the iteration panics.
\<close>

theorem rank_error_panics:
  "handleLine (quietEnv\<lparr>httpDo := (\<lambda>n url. DoError (lit ''dial tcp: i/o timeout''))\<rparr>)
     sampleBot (privmsg ''bob'' ''!rank'') idle = Panic"
  by (simp add: string_defs program_defs sample_defs)

text \<open>
  C2: a frame that holds the marker \<^verbatim>\<open>PRIVMSG\<close> and no colon after it.
  \<^verbatim>\<open>SplitN\<close> returns one piece and \<^verbatim>\<open>main\<close> takes the second: the iteration panics.
\<close>

theorem privmsg_without_colon_panics:
  "handleLine quietEnv sampleBot
     (lit '':bob!bob@bob.tmi.twitch.tv PRIVMSG #chan hello'' @ [13, 10]) idle = Panic"
  by (simp add: string_defs program_defs sample_defs)

text \<open>
  C7: the stream is not live and \<open>bob\<close> sends \<open>!stats\<close>. \<^verbatim>\<open>GetTwitchStreamStart\<close>
  fails, \<^verbatim>\<open>main\<close> writes the apology and goes on to \<^verbatim>\<open>GetStreamStats\<close> with the
  start time \<open>0\<close>: a second frame follows.
\<close>

theorem stream_stats_writes_two_frames:
  "map_outcome conn (handleLine quietEnv sampleBot (privmsg ''bob'' ''!stats'') idle) =
     Done [lit ''PRIVMSG #chan :@bob Error fetching stream info.'' @ [13, 10],
           lit ''PRIVMSG #chan :@bob Wins: 0 | Loss: 0 | Winrate: 0.00% '' @ [13, 10]]"
  by (simp add: string_defs program_defs sample_defs winrateOf_def Let_def)

text \<open>
  C8: the file of champions cannot be read, so \<^verbatim>\<open>championsMap\<close> is still nil when
  \<^verbatim>\<open>GetChampionName\<close> is called: it locks \<^verbatim>\<open>championsMu\<close> and calls
  \<^verbatim>\<open>LoadChampionMap\<close>, which waits for the same mutex. The call never returns.
\<close>

theorem champion_name_blocks_when_not_loaded:
  "GetChampionName (quietEnv\<lparr>championsCacheFile := Unreadable\<rparr>) 999 idle = Hang"
  by (simp add: program_defs sample_defs)

section \<open>The registry when two keys collide\<close>

lemma fold_normalizeInto:
  assumes "set visit \<subseteq> dom decoded"
  shows "fold (normalizeInto tbl decoded) visit m t =
     (if filter (\<lambda>k. cleanKey tbl k = t) visit = [] then m t
      else decoded (last (filter (\<lambda>k. cleanKey tbl k = t) visit)))"
  using assms
proof (induction visit rule: rev_induct)
  case Nil
  then show ?case by simp
next
  case (snoc k ks)
  then obtain v where v: "decoded k = Some v" by auto
  from snoc have ih: "fold (normalizeInto tbl decoded) ks m t =
     (if filter (\<lambda>k. cleanKey tbl k = t) ks = [] then m t
      else decoded (last (filter (\<lambda>k. cleanKey tbl k = t) ks)))" by simp
  have step: "normalizeInto tbl decoded k M t = (if cleanKey tbl k = t then Some v else M t)" for M
    by (auto simp: normalizeInto_def v)
  show ?case
    by (simp add: step ih v)
qed

text \<open>
  C5, as the claim states it, fails: the file defines \<open>!Hello\<close> and then \<open>!hello\<close>,
  \<^verbatim>\<open>range\<close> may visit the decoded map with \<open>!hello\<close> first, and then the registry
  holds for the token \<open>!hello\<close> the command that the file defines first.
\<close>

theorem later_key_loses:
  "rangeOrder (decodeCommands twoKeys) [lit ''!hello'', lit ''!Hello'']
   \<and> cleanKey caseless (fst (twoKeys ! 0)) = cleanKey caseless (fst (twoKeys ! 1))
   \<and> loadCommands caseless twoKeys [lit ''!hello'', lit ''!Hello'']
        (cleanKey caseless (fst (twoKeys ! 1))) = Some (snd (twoKeys ! 0))
   \<and> snd (twoKeys ! 0) \<noteq> snd (twoKeys ! 1)"
  by (auto simp: rangeOrder_def decodeCommands_def twoKeys_def loadCommands_def normalizeInto_def
      staticCommand_def string_defs)

text \<open>
  C5, amended: the registry is a map, so it holds one entry for the token, and that
  entry is the command of the colliding key that the \<^verbatim>\<open>range\<close> loop over the decoded
  map visits last, whatever the order of the keys in the file; a token that no key
  normalises to has no entry.
\<close>

theorem loadCommands_last_visited:
  assumes "rangeOrder (decodeCommands members) visit"
  shows "loadCommands tbl members visit t =
     (if filter (\<lambda>k. cleanKey tbl k = t) visit = [] then None
      else decodeCommands members (last (filter (\<lambda>k. cleanKey tbl k = t) visit)))"
  using assms fold_normalizeInto[of visit "decodeCommands members" tbl Map.empty t]
  by (simp add: loadCommands_def rangeOrder_def)

lemma twoKeys_order:
  "rangeOrder (decodeCommands twoKeys) [lit ''!hello'', lit ''!Hello'']"
  by (auto simp: rangeOrder_def decodeCommands_def twoKeys_def lit_def)

theorem loadCommands_last_visited_witness:
  "loadCommands caseless twoKeys [lit ''!hello'', lit ''!Hello''] (lit ''!hello'')
     = Some (staticCommand ''first'' 0)"
  using loadCommands_last_visited[OF twoKeys_order, of caseless "lit ''!hello''"]
  by (simp add: string_defs decodeCommands_def twoKeys_def)

section \<open>Identity resolution\<close>

lemma makeRequest_frame:
  assumes "makeRequest e hostType path st = Done (r, st')"
  shows "\<exists>rs. st' = st\<lparr>requests := rs\<rparr> \<and> length (requests st) \<le> length rs
           \<and> length rs \<le> Suc (length (requests st))"
proof (cases "RIOT_TOKEN e = [] \<or> \<not> (hostType = lit ''platform'' \<or> hostType = lit ''regional'')")
  case True
  then have "st' = st" using assms by (auto simp: makeRequest_def split: if_splits)
  then have "st' = st\<lparr>requests := requests st\<rparr>" by simp
  then show ?thesis by (intro exI[of _ "requests st"]) simp
next
  case False
  then have "st' = st\<lparr>requests := requests st @
      [lit ''https://'' @ (if hostType = lit ''platform'' then platformStr e else regionStr e)
        @ lit ''.api.riotgames.com'' @ path]\<rparr>"
    using assms
    by (auto simp: makeRequest_def httpGet_def split: if_splits http_result.splits)
  then show ?thesis by (intro exI[of _ "requests st @
      [lit ''https://'' @ (if hostType = lit ''platform'' then platformStr e else regionStr e)
        @ lit ''.api.riotgames.com'' @ path]"]) simp
qed

text \<open>
  C6, as the claim states it, fails: the cache lives in the file only, so when the
  write fails the second call finds nothing and repeats both lookups (four requests
  after two calls).
\<close>

theorem resolve_repeats_lookups_after_failed_write:
  "resolveTwice (quietEnv\<lparr>writeFileOk := False\<rparr>) (lit ''Name'') (lit ''TAG'') idle
     = Done (Inr (lit ''puuid-1''), Inr (lit ''puuid-1''), 2, 4)"
  by (simp add: string_defs program_defs sample_defs)

text \<open>
  C6, amended: when a call of \<^verbatim>\<open>GetOrCachePlayer\<close> has returned an identifier and
  the file can be written, the call made at most two requests, and a second call for
  the same name and tag returns the same identifier and changes nothing: no request,
  no write.
\<close>

theorem resolve_cached_when_written:
  assumes first: "GetOrCachePlayer e gameName tagLine st = Done (Inr p, st1)"
    and written: "writeFileOk e"
  shows "GetOrCachePlayer e gameName tagLine st1 = Done (Inr p, st1)
       \<and> length (requests st1) \<le> length (requests st) + 2"
proof -
  let ?cache = "case playerCacheFile st of None \<Rightarrow> Map.empty | Some c \<Rightarrow> c"
  let ?key = "gameName @ lit ''#'' @ tagLine"
  show ?thesis
  proof (cases "?cache ?key")
    case (Some entry)
    then have "st1 = st" and "p = PUUID entry"
      using first by (auto simp: GetOrCachePlayer_def Let_def)
    then show ?thesis using first by simp
  next
    case None
    from first None written obtain rs entry where
      st1: "st1 = st\<lparr>requests := rs, ticks := Suc (ticks st),
                     playerCacheFile := Some (?cache(?key \<mapsto> entry))\<rparr>"
      and len: "length rs \<le> length (requests st) + 2"
      and p: "PUUID entry = p"
      by (auto simp: GetOrCachePlayer_def Let_def andThen_case time_Now_def
          split: outcome.splits sum.splits prod.splits dest!: makeRequest_frame)
    have "GetOrCachePlayer e gameName tagLine st1 = Done (Inr p, st1)"
      unfolding st1 by (simp add: GetOrCachePlayer_def Let_def p)
    then show ?thesis using len st1 by simp
  qed
qed

theorem resolve_cached_when_written_witness:
  "resolveTwice quietEnv (lit ''Name'') (lit ''TAG'') idle
     = Done (Inr (lit ''puuid-1''), Inr (lit ''puuid-1''), 2, 2)"
proof -
  obtain st1 where 1: "GetOrCachePlayer quietEnv (lit ''Name'') (lit ''TAG'') idle = Done (Inr (lit ''puuid-1''), st1)"
    and n: "length (requests st1) = 2"
    by (simp add: string_defs program_defs sample_defs)
  have w: "writeFileOk quietEnv" by (simp add: quietEnv_def)
  show ?thesis
    using resolve_cached_when_written[OF 1 w] 1 n by (simp add: resolveTwice_def)
qed

section \<open>Bans when the subject is not in a match\<close>

lemma Index_prefix: "Index (sub @ post) sub = Some 0"
proof (cases "sub @ post")
  case Nil
  then show ?thesis by simp
next
  case (Cons a list)
  have "HasPrefix (sub @ post) sub" by (simp add: HasPrefix_def)
  then show ?thesis using Cons by simp
qed

lemma Contains_middle: "Contains (pre @ sub @ post) sub"
proof (induction pre)
  case Nil
  then show ?case by (simp add: Contains_def Index_prefix)
next
  case (Cons x pre)
  then show ?case by (auto simp: Contains_def)
qed

lemma makeRequest_404:
  assumes "RIOT_TOKEN e \<noteq> []" and "newRequestOk e (bansURL e p)"
    and "httpDo e (length (requests st)) (bansURL e p) = HTTPResponse 404 body"
  shows "makeRequest e (lit ''platform'') (lit ''/lol/spectator/v5/active-games/by-summoner/'' @ p) st
     = Done (Inl (lit ''request failed '' @ lit ''404'' @ lit '': '' @ body),
             st\<lparr>requests := requests st @ [bansURL e p]\<rparr>)"
proof -
  have i: "itoa 404 = lit ''404''" by (simp add: itoa_def lit_def)
  show ?thesis
    using assms by (simp add: makeRequest_def httpGet_def bansURL_def i)
qed

lemma GetActiveMatchBans_404:
  assumes "RIOT_TOKEN e \<noteq> []" and "newRequestOk e (bansURL e p)"
    and "httpDo e (length (requests st)) (bansURL e p) = HTTPResponse 404 body"
  shows "GetActiveMatchBans e p st = Done (Inr [], st\<lparr>requests := requests st @ [bansURL e p]\<rparr>)"
  using Contains_middle[of "lit ''request failed ''" "lit ''404''" "lit '': '' @ body"]
  by (simp add: GetActiveMatchBans_def makeRequest_404[OF assms])

lemma frames_differ: "notInMatchFrame b user \<noteq> bansFrame b user bans"
  by (simp add: notInMatchFrame_def bansFrame_def lit_def)

lemma current_bans_info_cases:
  assumes "current_bans_info e b user st = Done st'"
  shows "(\<exists>err s. GetActiveMatchBans e (puuid b) st = Done (Inl err, s)
             \<and> conn st' = conn s @ [notInMatchFrame b user])
       \<or> (\<exists>bans s. GetActiveMatchBans e (puuid b) st = Done (Inr bans, s)
             \<and> conn st' = conn s @ [bansFrame b user bans])"
  using assms
  by (auto simp: current_bans_info_def andThen_case say_def notInMatchFrame_def bansFrame_def
      split: outcome.splits sum.splits prod.splits)

lemma GetActiveMatchBans_error:
  assumes "GetActiveMatchBans e p st = Done (Inl err, s)"
  shows "makeRequest e (lit ''platform'') (lit ''/lol/spectator/v5/active-games/by-summoner/'' @ p) st
           = Done (Inl err, s) \<and> \<not> Contains err (lit ''404'')"
  using assms
  by (auto simp: GetActiveMatchBans_def andThen_case
      split: outcome.splits sum.splits prod.splits if_splits)

text \<open>
  A frame that splits into a sender and a message is handed to \<open>dispatch\<close>, and a
  command of the endpoint \<^verbatim>\<open>current_bans_info\<close> runs \<open>current_bans_info\<close>.
\<close>

lemma coolingDown_keeps:
  "requests (snd (coolingDown e cfg c st)) = requests st"
  "conn (snd (coolingDown e cfg c st)) = conn st"
  by (simp_all add: coolingDown_def time_Since_def time_Now_def split: option.splits)

lemma handler_bans:
  assumes "Type cfg = lit ''api''" and "Endpoint cfg = lit ''current_bans_info''"
  shows "handler e b cfg user st = current_bans_info e b user st"
  using assms by (simp add: handler_def lit_def)

lemma handleLine_privmsg:
  assumes "\<not> HasPrefix (TrimSpace line) (lit ''PING'')"
    and "Contains (TrimSpace line) (lit ''PRIVMSG'')"
    and "Split (TrimSpace line) (lit ''PRIVMSG'') = parts0 # parts1 # rest1"
    and "Split parts0 (lit ''!'') = rawUser # rest0"
    and "SplitN2 parts1 (lit '':'') = [channelPart, msg]"
  shows "handleLine e b line st = dispatch e b (TrimPrefix rawUser (lit '':'')) msg st"
  using assms by (simp add: handleLine_def Let_def)

lemma mainLoop_one:
  "mainLoop e b [Some line] st = handleLine e b line st"
  by (cases "handleLine e b line st") simp_all

lemma dispatch_bans:
  assumes reg: "commands b (cleanKey (lowerTable e) msg) = Some cfg"
    and api: "Type cfg = lit ''api''" and ep: "Endpoint cfg = lit ''current_bans_info''"
  shows "dispatch e b user msg st =
     (if fst (coolingDown e cfg (cleanKey (lowerTable e) msg) st)
      then Done (snd (coolingDown e cfg (cleanKey (lowerTable e) msg) st))
      else andThen (current_bans_info e b user (snd (coolingDown e cfg (cleanKey (lowerTable e) msg) st)))
        (\<lambda>st2. Done (st2\<lparr>ticks := Suc (ticks st2),
                         lastUsed := (lastUsed st2)(cleanKey (lowerTable e) msg \<mapsto> clock e (ticks st2))\<rparr>)))"
  using reg by (simp add: dispatch_def Let_def handler_bans[OF api ep] time_Now_def split: prod.splits)

text \<open>
  C10: an iteration of the loop on a user message whose token is registered for the
  endpoint \<^verbatim>\<open>current_bans_info\<close>. When the command is not cooling down and the
  request of \<^verbatim>\<open>GetActiveMatchBans\<close> is answered with status 404, that function
  returns the empty list and no error, and the loop writes the one frame
  \<open>@sender Banned Champions: \<close> with nothing after it; and when the loop writes
  \<open>@sender Not in an Active Match\<close>, the request failed with an error whose text does
  not hold \<open>404\<close>, so the answer was not a status 404.
\<close>

theorem bans_on_404:
  assumes shape: "\<not> HasPrefix (TrimSpace line) (lit ''PING'')"
      "Contains (TrimSpace line) (lit ''PRIVMSG'')"
      "Split (TrimSpace line) (lit ''PRIVMSG'') = parts0 # parts1 # rest1"
      "Split parts0 (lit ''!'') = rawUser # rest0"
      "SplitN2 parts1 (lit '':'') = [channelPart, msg]"
    and reg: "commands b (cleanKey (lowerTable e) msg) = Some cfg"
    and api: "Type cfg = lit ''api''"
    and ep: "Endpoint cfg = lit ''current_bans_info''"
  shows "(\<not> fst (coolingDown e cfg (cleanKey (lowerTable e) msg) st)
          \<and> RIOT_TOKEN e \<noteq> [] \<and> newRequestOk e (bansURL e (puuid b))
          \<and> httpDo e (length (requests st)) (bansURL e (puuid b)) = HTTPResponse 404 body
         \<longrightarrow> GetActiveMatchBans e (puuid b) (snd (coolingDown e cfg (cleanKey (lowerTable e) msg) st))
               = Done (Inr [], (snd (coolingDown e cfg (cleanKey (lowerTable e) msg) st))
                    \<lparr>requests := requests st @ [bansURL e (puuid b)]\<rparr>)
             \<and> map_outcome conn (mainLoop e b [Some line] st)
               = Done (conn st @ [bansFrame b (TrimPrefix rawUser (lit '':'')) []]))
       \<and> (mainLoop e b [Some line] st = Done st'
            \<and> conn st' = conn st @ [notInMatchFrame b (TrimPrefix rawUser (lit '':''))]
         \<longrightarrow> (\<exists>err s. makeRequest e (lit ''platform'')
                          (lit ''/lol/spectator/v5/active-games/by-summoner/'' @ puuid b)
                          (snd (coolingDown e cfg (cleanKey (lowerTable e) msg) st))
                        = Done (Inl err, s)
                      \<and> \<not> Contains err (lit ''404''))
             \<and> \<not> (RIOT_TOKEN e \<noteq> [] \<and> newRequestOk e (bansURL e (puuid b))
                   \<and> (\<exists>body. httpDo e (length (requests st)) (bansURL e (puuid b))
                                = HTTPResponse 404 body)))"
proof (intro conjI impI)
  let ?user = "TrimPrefix rawUser (lit '':'')"
  let ?sA = "snd (coolingDown e cfg (cleanKey (lowerTable e) msg) st)"
  have loop: "mainLoop e b [Some line] st = dispatch e b ?user msg st"
    by (simp only: mainLoop_one handleLine_privmsg[OF shape])
  note d = dispatch_bans[OF reg api ep, of ?user st]
  {
    assume a: "\<not> fst (coolingDown e cfg (cleanKey (lowerTable e) msg) st)
          \<and> RIOT_TOKEN e \<noteq> [] \<and> newRequestOk e (bansURL e (puuid b))
          \<and> httpDo e (length (requests st)) (bansURL e (puuid b)) = HTTPResponse 404 body"
    then have h: "httpDo e (length (requests ?sA)) (bansURL e (puuid b)) = HTTPResponse 404 body"
      by (simp add: coolingDown_keeps)
    from a h show g: "GetActiveMatchBans e (puuid b) ?sA
               = Done (Inr [], ?sA\<lparr>requests := requests st @ [bansURL e (puuid b)]\<rparr>)"
      using GetActiveMatchBans_404[of e "puuid b" ?sA body] by (simp add: coolingDown_keeps)
    show "map_outcome conn (mainLoop e b [Some line] st) = Done (conn st @ [bansFrame b ?user []])"
      using a unfolding loop d
      by (simp add: current_bans_info_def g say_def bansFrame_def coolingDown_keeps)
  }
  {
    assume h: "mainLoop e b [Some line] st = Done st'
            \<and> conn st' = conn st @ [notInMatchFrame b ?user]"
    then have disp: "dispatch e b ?user msg st = Done st'" unfolding loop by simp
    have nc: "\<not> fst (coolingDown e cfg (cleanKey (lowerTable e) msg) st)"
    proof
      assume "fst (coolingDown e cfg (cleanKey (lowerTable e) msg) st)"
      then have "st' = ?sA" using disp d by simp
      then show False using h by (simp add: coolingDown_keeps)
    qed
    from disp d nc obtain sB where cb: "current_bans_info e b ?user ?sA = Done sB"
      and c: "conn st' = conn sB"
      by (auto simp: andThen_case split: outcome.splits)
    from current_bans_info_cases[OF cb] h c frames_differ[of b ?user]
    obtain err s where err: "GetActiveMatchBans e (puuid b) ?sA = Done (Inl err, s)"
      by auto
    from GetActiveMatchBans_error[OF err]
    show "\<exists>err s. makeRequest e (lit ''platform'')
                          (lit ''/lol/spectator/v5/active-games/by-summoner/'' @ puuid b) ?sA
                        = Done (Inl err, s)
                      \<and> \<not> Contains err (lit ''404'')"
      by blast
    show "\<not> (RIOT_TOKEN e \<noteq> [] \<and> newRequestOk e (bansURL e (puuid b))
                   \<and> (\<exists>body. httpDo e (length (requests st)) (bansURL e (puuid b))
                                = HTTPResponse 404 body))"
      using err GetActiveMatchBans_404[of e "puuid b" ?sA] by (auto simp: coolingDown_keeps)
  }
qed

theorem bans_on_404_witness:
  "map_outcome conn (mainLoop (answering 404) sampleBot [Some (privmsg ''bob'' ''!bans'')] idle)
     = Done [lit ''PRIVMSG #chan :@bob Banned Champions: '' @ [13, 10]]
   \<and> map_outcome conn (mainLoop (answering 500) sampleBot [Some (privmsg ''bob'' ''!bans'')] idle)
     = Done [lit ''PRIVMSG #chan :@bob Not in an Active Match'' @ [13, 10]]
   \<and> (\<exists>err s. makeRequest (answering 500) (lit ''platform'')
                  (lit ''/lol/spectator/v5/active-games/by-summoner/'' @ puuid sampleBot) idle
                = Done (Inl err, s)
              \<and> \<not> Contains err (lit ''404''))"
proof -
  let ?line = "privmsg ''bob'' ''!bans''"
  let ?cfg = "apiCommand ''current_bans_info'' 5"
  have s1: "\<not> HasPrefix (TrimSpace ?line) (lit ''PING'')"
    and s2: "Contains (TrimSpace ?line) (lit ''PRIVMSG'')"
    and s3: "Split (TrimSpace ?line) (lit ''PRIVMSG'')
               = lit '':bob!bob@bob.tmi.twitch.tv '' # lit '' #chan :!bans'' # []"
    and s4: "Split (lit '':bob!bob@bob.tmi.twitch.tv '') (lit ''!'')
               = lit '':bob'' # [lit ''bob@bob.tmi.twitch.tv '']"
    and s5: "SplitN2 (lit '' #chan :!bans'') (lit '':'') = [lit '' #chan '', lit ''!bans'']"
    by (simp_all add: string_defs privmsg_def)
  have user: "TrimPrefix (lit '':bob'') (lit '':'') = lit ''bob''"
    by (simp add: string_defs)
  have reg: "commands sampleBot (cleanKey (lowerTable (answering c)) (lit ''!bans'')) = Some ?cfg" for c
    by (simp add: string_defs sample_defs)
  have api: "Type ?cfg = lit ''api''" and ep: "Endpoint ?cfg = lit ''current_bans_info''"
    by (simp_all add: apiCommand_def)
  have cd: "coolingDown (answering c) ?cfg (cleanKey (lowerTable (answering c)) (lit ''!bans'')) idle
      = (False, idle)" for c
    by (simp add: coolingDown_def idle_def)
  have a: "\<not> fst (coolingDown (answering 404) ?cfg (cleanKey (lowerTable (answering 404)) (lit ''!bans'')) idle)
      \<and> RIOT_TOKEN (answering 404) \<noteq> []
      \<and> newRequestOk (answering 404) (bansURL (answering 404) (puuid sampleBot))
      \<and> httpDo (answering 404) (length (requests idle)) (bansURL (answering 404) (puuid sampleBot))
          = HTTPResponse 404 (lit ''upstream says no'')"
    by (simp add: cd) (simp add: answering_def quietEnv_def lit_def)
  have c: "conn idle = []" by (simp add: idle_def)
  have f: "bansFrame sampleBot (lit ''bob'') [] = lit ''PRIVMSG #chan :@bob Banned Champions: '' @ [13, 10]"
    by (simp add: bansFrame_def sampleBot_def lit_def)
  have n: "notInMatchFrame sampleBot (lit ''bob'') = lit ''PRIVMSG #chan :@bob Not in an Active Match'' @ [13, 10]"
    by (simp add: notInMatchFrame_def sampleBot_def lit_def)
  obtain st' where r: "mainLoop (answering 500) sampleBot [Some ?line] idle = Done st'"
    and o: "conn st' = [lit ''PRIVMSG #chan :@bob Not in an Active Match'' @ [13, 10]]"
    by (simp add: string_defs program_defs sample_defs)
  have h: "mainLoop (answering 500) sampleBot [Some ?line] idle = Done st'
        \<and> conn st' = conn idle @ [notInMatchFrame sampleBot (TrimPrefix (lit '':bob'') (lit '':''))]"
    using r o c n user by simp
  have A: "map_outcome conn (mainLoop (answering 404) sampleBot [Some ?line] idle)
      = Done [lit ''PRIVMSG #chan :@bob Banned Champions: '' @ [13, 10]]"
    using bans_on_404[OF s1 s2 s3 s4 s5 reg api ep, of 404 idle "lit ''upstream says no''"] a
    by (simp add: c f user)
  have B: "\<exists>err s. makeRequest (answering 500) (lit ''platform'')
                  (lit ''/lol/spectator/v5/active-games/by-summoner/'' @ puuid sampleBot) idle
                = Done (Inl err, s)
              \<and> \<not> Contains err (lit ''404'')"
    using bans_on_404[OF s1 s2 s3 s4 s5 reg api ep, of 500 idle _ st'] h
    by (simp add: cd)
  show ?thesis using A B r o by simp
qed

section \<open>The winrate\<close>

text \<open>Rounding to binary64: the error of one rounding, and the numbers that are exact.\<close>

lemma roundHalfEven_err: "\<bar>real_of_int (roundHalfEven y) - y\<bar> \<le> 1 / 2"
  unfolding roundHalfEven_def by (auto simp: abs_if) linarith+

lemma roundHalfEven_of_int: "roundHalfEven (real_of_int n) = n"
  by (simp add: roundHalfEven_def)

lemma binade:
  assumes "x \<noteq> 0"
  shows "2 powr real_of_int \<lfloor>log 2 \<bar>x\<bar>\<rfloor> \<le> \<bar>x\<bar>"
proof -
  have "2 powr real_of_int \<lfloor>log 2 \<bar>x\<bar>\<rfloor> \<le> 2 powr log 2 \<bar>x\<bar>"
    by (intro powr_mono) auto
  also have "\<dots> = \<bar>x\<bar>" using assms by simp
  finally show ?thesis .
qed

lemma floor_log2_eq:
  assumes "2 powr real_of_int k \<le> \<bar>x\<bar>" and "\<bar>x\<bar> < 2 powr (real_of_int k + 1)"
  shows "\<lfloor>log 2 \<bar>x\<bar>\<rfloor> = k"
proof (rule floor_unique)
  have pos: "0 < \<bar>x\<bar>"
    using assms(1) powr_gt_zero[of 2 "real_of_int k"] by linarith
  show "real_of_int k \<le> log 2 \<bar>x\<bar>"
    using assms(1) pos by (simp add: le_log_iff)
  show "log 2 \<bar>x\<bar> < real_of_int k + 1"
    using assms(2) pos by (simp add: log_less_iff)
qed

lemma round64_err: "\<bar>round64 x - x\<bar> \<le> \<bar>x\<bar> / 2 ^ 53"
proof (cases "x = 0")
  case True
  then show ?thesis by (simp add: round64_def)
next
  case False
  define e where "e = \<lfloor>log 2 \<bar>x\<bar>\<rfloor> - 52"
  define s :: real where "s = 2 powr real_of_int e"
  have s0: "0 < s" by (simp add: s_def)
  have r: "round64 x = real_of_int (roundHalfEven (x / s)) * s"
    using False by (simp add: round64_def e_def s_def)
  have "round64 x - x = (real_of_int (roundHalfEven (x / s)) - x / s) * s"
    using s0 by (simp add: r field_simps)
  then have "\<bar>round64 x - x\<bar> = \<bar>real_of_int (roundHalfEven (x / s)) - x / s\<bar> * s"
    using s0 by (simp add: abs_mult)
  also have "\<dots> \<le> 1 / 2 * s"
    using roundHalfEven_err[of "x / s"] s0 by (intro mult_right_mono) auto
  also have "\<dots> = 2 powr real_of_int \<lfloor>log 2 \<bar>x\<bar>\<rfloor> / 2 ^ 53"
    by (simp add: s_def e_def powr_diff)
  also have "\<dots> \<le> \<bar>x\<bar> / 2 ^ 53"
    using binade[OF False] by (simp add: divide_right_mono)
  finally show ?thesis .
qed

lemma round64_nonzero: "x \<noteq> 0 \<Longrightarrow> round64 x \<noteq> 0"
proof
  assume x: "x \<noteq> 0" and z: "round64 x = 0"
  have "\<bar>x\<bar> \<le> \<bar>x\<bar> / 2 ^ 53" using round64_err[of x] z by simp
  moreover have "\<bar>x\<bar> / 2 ^ 53 < \<bar>x\<bar>" using x by simp
  ultimately show False by simp
qed

lemma round64_at:
  assumes "2 powr real_of_int k \<le> \<bar>x\<bar>" and "\<bar>x\<bar> < 2 powr (real_of_int k + 1)"
  shows "round64 x = real_of_int (roundHalfEven (x / 2 powr real_of_int (k - 52)))
                      * 2 powr real_of_int (k - 52)"
proof -
  have "x \<noteq> 0" using assms(1) powr_gt_zero[of 2 "real_of_int k"] by auto
  then show ?thesis by (simp add: round64_def floor_log2_eq[OF assms])
qed

lemma round64_of_int:
  assumes "\<bar>i\<bar> < 2 ^ 53"
  shows "round64 (real_of_int i) = real_of_int i"
proof (cases "i = 0")
  case True
  then show ?thesis by (simp add: round64_def)
next
  case False
  define L where "L = \<lfloor>log 2 \<bar>real_of_int i\<bar>\<rfloor>"
  have one: "1 \<le> \<bar>real_of_int i\<bar>" using False by (simp flip: of_int_abs)
  have lt: "\<bar>real_of_int i\<bar> < 2 ^ 53" using assms by (simp flip: of_int_abs)
  have L0: "0 \<le> L" unfolding L_def using one by simp
  have "log 2 \<bar>real_of_int i\<bar> < 53"
    using lt one by (simp add: log_less_iff)
  then have L52: "L \<le> 52" unfolding L_def by (simp add: floor_le_iff)
  define n where "n = nat (52 - L)"
  have "real_of_int L - 52 = - real n" using L52 by (simp add: n_def)
  then have p: "2 powr (real_of_int L - 52) = 1 / 2 ^ n"
    by (simp add: powr_minus powr_realpow divide_inverse)
  have "real_of_int i / 2 powr (real_of_int L - 52) = real_of_int (i * 2 ^ n)"
    by (simp add: p)
  then have "roundHalfEven (real_of_int i / 2 powr (real_of_int L - 52)) = i * 2 ^ n"
    using roundHalfEven_of_int by metis
  then show ?thesis
    using False by (simp add: round64_def L_def[symmetric] p)
qed

lemma powr2_neg: "2 powr (- real n) = 1 / 2 ^ n"
  by (simp add: powr_minus powr_realpow divide_inverse)

lemma powr2_pos: "2 powr (real n) = 2 ^ n"
  by (simp add: powr_realpow)

lemma roundHalfEven_first: "roundHalfEven (126100789566373888 / 25) = 5044031582654956"
  by (simp add: roundHalfEven_def)

lemma roundHalfEven_second: "roundHalfEven (126100789566373900 / 16) = 7881299347898369"
  by (simp add: roundHalfEven_def)

lemma round64_quotient: "round64 (7 / 25) = 5044031582654956 / 2 ^ 54"
proof -
  have p2: "2 powr real_of_int (- 2) = 1 / 2 ^ 2" using powr2_neg[of 2] by simp
  have p1: "2 powr (real_of_int (- 2) + 1) = 1 / 2 ^ 1" using powr2_neg[of 1] by simp
  have p54: "2 powr real_of_int (- 2 - 52) = 1 / 2 ^ 54" using powr2_neg[of 54] by simp
  have a: "2 powr real_of_int (- 2) \<le> \<bar>7 / 25 :: real\<bar>" unfolding p2 by simp
  have b: "\<bar>7 / 25 :: real\<bar> < 2 powr (real_of_int (- 2) + 1)" unfolding p1 by simp
  have c: "(7 / 25 :: real) / (1 / 2 ^ 54) = 126100789566373888 / 25" by simp
  show ?thesis
    using round64_at[OF a b] unfolding p54 c roundHalfEven_first by simp
qed

lemma round64_product: "round64 (5044031582654956 / 2 ^ 54 * 100) = 7881299347898369 / 2 ^ 48"
proof -
  have p4: "2 powr real_of_int 4 = 2 ^ 4" using powr2_pos[of 4] by simp
  have p5: "2 powr (real_of_int 4 + 1) = 2 ^ 5" using powr2_pos[of 5] by simp
  have p48: "2 powr real_of_int (4 - 52) = 1 / 2 ^ 48" using powr2_neg[of 48] by simp
  have a: "2 powr real_of_int 4 \<le> \<bar>5044031582654956 / 2 ^ 54 * 100 :: real\<bar>" unfolding p4 by simp
  have b: "\<bar>5044031582654956 / 2 ^ 54 * 100 :: real\<bar> < 2 powr (real_of_int 4 + 1)" unfolding p5 by simp
  have c: "(5044031582654956 / 2 ^ 54 * 100 :: real) / (1 / 2 ^ 48) = 126100789566373900 / 16" by simp
  show ?thesis
    using round64_at[OF a b] unfolding p48 c roundHalfEven_second by simp
qed

lemma winrate_7_18: "winrateOf 7 18 = Finite (7881299347898369 / 2 ^ 48)"
proof -
  have 7: "float64_of_int 7 = 7" using round64_of_int[of 7] by (simp add: float64_of_int_def)
  have 25: "float64_of_int 25 = 25" using round64_of_int[of 25] by (simp add: float64_of_int_def)
  have d: "float64_div (float64_of_int 7) (float64_of_int 25) = Finite (5044031582654956 / 2 ^ 54)"
    by (simp add: float64_div_def 7 25 round64_quotient)
  have w: "winrateOf 7 18 = float64_mul (float64_div (float64_of_int 7) (float64_of_int 25)) 100"
    by (simp add: winrateOf_def)
  show ?thesis
    unfolding w d float64_mul.simps round64_product by (rule refl)
qed

lemma countMatches_counts:
  "countMatches e p ids w l st = Done ((w', l'), st') \<Longrightarrow> w \<le> w' \<and> l \<le> l'"
proof (induction ids arbitrary: w l st)
  case Nil
  then show ?case by simp
next
  case (Cons matchID rest)
  then show ?case
    by (auto split: outcome.splits sum.splits prod.splits option.splits if_splits)
       (force+)
qed

lemma double_rounding:
  assumes q: "0 \<le> q"
  shows "\<bar>round64 (round64 q * 100) - q * 100\<bar> \<le> q * 100 * 3 / 2 ^ 53"
proof -
  define u :: real where "u = 1 / 2 ^ 53"
  define a where "a = round64 q"
  have u: "0 \<le> u" "u \<le> 1" by (simp_all add: u_def)
  have 1: "\<bar>a - q\<bar> \<le> q * u" using round64_err[of q] q by (simp add: a_def u_def)
  then have 2: "\<bar>a\<bar> \<le> q + q * u" using q by linarith
  have 3: "\<bar>round64 (a * 100) - a * 100\<bar> \<le> \<bar>a\<bar> * 100 * u"
    using round64_err[of "a * 100"] by (simp add: u_def abs_mult)
  have "\<bar>a\<bar> * 100 * u \<le> (q + q * u) * 100 * u"
    using 2 u by (intro mult_right_mono) auto
  also have "\<dots> = q * 100 * u + q * 100 * (u * u)" by (simp add: algebra_simps)
  also have "\<dots> \<le> q * 100 * u + q * 100 * u"
  proof -
    have "u * u \<le> u" using u by (simp add: mult_left_le)
    then have "q * 100 * (u * u) \<le> q * 100 * u" using q by (intro mult_left_mono) auto
    then show ?thesis by simp
  qed
  finally have 4: "\<bar>round64 (a * 100) - a * 100\<bar> \<le> q * 100 * u + q * 100 * u"
    using 3 by linarith
  have "a * 100 - q * 100 = (a - q) * 100" by (simp add: algebra_simps)
  then have 5: "\<bar>a * 100 - q * 100\<bar> = \<bar>a - q\<bar> * 100"
    by (simp only: abs_mult)
  have "round64 (a * 100) - q * 100 = (round64 (a * 100) - a * 100) + (a * 100 - q * 100)"
    by simp
  then have "\<bar>round64 (a * 100) - q * 100\<bar>
      \<le> \<bar>round64 (a * 100) - a * 100\<bar> + \<bar>a * 100 - q * 100\<bar>"
    by (simp only: abs_triangle_ineq)
  also have "\<dots> = \<bar>round64 (a * 100) - a * 100\<bar> + \<bar>a - q\<bar> * 100"
    by (simp only: 5)
  also have "\<dots> \<le> (q * 100 * u + q * 100 * u) + q * u * 100"
  proof -
    have 6: "\<bar>a - q\<bar> * 100 \<le> q * u * 100" using 1 by simp
    show ?thesis by (rule add_mono[OF 4 6])
  qed
  also have "\<dots> = q * 100 * 3 * u" by (simp add: algebra_simps)
  finally show ?thesis by (simp add: a_def u_def)
qed

lemma winrateOf_value:
  "winrateOf w l =
     (if w + l > 0
      then Finite (round64 (round64 (float64_of_int w / float64_of_int (w + l)) * 100))
      else Finite 0)"
proof (cases "w + l > 0")
  case True
  then have "real_of_int (w + l) \<noteq> 0" by simp
  then have "float64_of_int (w + l) \<noteq> 0"
    unfolding float64_of_int_def by (rule round64_nonzero)
  then show ?thesis using True by (simp add: winrateOf_def float64_div_def)
next
  case False
  then show ?thesis by (simp add: winrateOf_def)
qed

lemma winrateOf_close:
  assumes "0 \<le> w" "0 \<le> l" "0 < w + l" "w + l < 2 ^ 53"
  shows "\<exists>r. winrateOf w l = Finite r
     \<and> \<bar>r - real_of_int w / real_of_int (w + l) * 100\<bar>
         \<le> real_of_int w / real_of_int (w + l) * 100 * 3 / 2 ^ 53"
proof -
  have w: "float64_of_int w = real_of_int w"
    unfolding float64_of_int_def using assms by (intro round64_of_int) auto
  have t: "float64_of_int (w + l) = real_of_int (w + l)"
    unfolding float64_of_int_def using assms by (intro round64_of_int) auto
  have q: "0 \<le> real_of_int w / real_of_int (w + l)" using assms by simp
  show ?thesis
    using double_rounding[OF q] assms(3) unfolding winrateOf_value w t by simp
qed

lemma replicate_25: "replicate 25 x = [x, x, x, x, x, x, x, x, x, x, x, x, x, x, x, x, x, x, x, x, x, x, x, x, x]"
  by (simp add: numeral_eq_Suc)

text \<open>
  C9, as the claim states it, fails: the arithmetic is that of \<^verbatim>\<open>float64\<close>. After
  seven wins and eighteen losses the code divides 7 by 25 and rounds, multiplies by
  100 and rounds again, and stores \<open>7881299347898369 / 2^48\<close>, which prints as
  28.000000000000004 and is not \<open>7 / 25 * 100 = 28\<close>.
\<close>

theorem winrate_is_rounded:
  "statsSummary (GetStreamStats sevenWinsEnv (lit ''puuid-1'') 0 idle)
     = Some (7, 18, Finite (7881299347898369 / 2 ^ 48))
   \<and> (7881299347898369 / 2 ^ 48 :: real) \<noteq> 7 / (7 + 18) * 100"
  by (simp add: string_defs program_defs sample_defs Let_def replicate_25 winrate_7_18)

text \<open>
  C9, amended: an entry that \<^verbatim>\<open>GetStreamStats\<close> computes (the key is not in the
  cache) has counts that are not negative and a winrate that is never NaN; the winrate
  is exactly \<open>0\<close> when both counts are \<open>0\<close>; when \<open>wins + losses > 0\<close> it is the
  \<^verbatim>\<open>float64\<close> value of \<^verbatim>\<open>float64(wins) / float64(total) * 100\<close>, the quotient rounded
  and its product with 100 rounded again, which for fewer than \<open>2^53\<close> matches lies
  within \<open>3 / 2^53\<close> of \<open>wins / (wins + losses) * 100\<close>, relative to that value.
\<close>

theorem winrate_computed:
  assumes miss: "streamCache st (subject @ lit ''_'' @ itoa startTime) = None"
    and ret: "GetStreamStats e subject startTime st = Done (Inr entry, st')"
  shows "0 \<le> Wins entry \<and> 0 \<le> Losses entry
       \<and> Winrate entry =
           (if Wins entry + Losses entry > 0
            then Finite (round64 (round64 (float64_of_int (Wins entry)
                                           / float64_of_int (Wins entry + Losses entry)) * 100))
            else Finite 0)
       \<and> (Wins entry = 0 \<and> Losses entry = 0 \<longrightarrow> Winrate entry = Finite 0)
       \<and> Winrate entry \<noteq> NaN
       \<and> (0 < Wins entry + Losses entry \<and> Wins entry + Losses entry < 2 ^ 53 \<longrightarrow>
            (\<exists>r. Winrate entry = Finite r
               \<and> \<bar>r - real_of_int (Wins entry) / real_of_int (Wins entry + Losses entry) * 100\<bar>
                   \<le> real_of_int (Wins entry) / real_of_int (Wins entry + Losses entry) * 100
                       * 3 / 2 ^ 53))"
proof -
  from miss ret obtain wins losses where f: "Wins entry = wins" "Losses entry = losses"
    "Winrate entry = winrateOf wins losses" and pos: "0 \<le> wins" "0 \<le> losses"
    by (auto simp: GetStreamStats_def time_Now_def andThen_case Let_def
        split: outcome.splits sum.splits prod.splits dest!: countMatches_counts)
  have v: "Winrate entry =
     (if wins + losses > 0
      then Finite (round64 (round64 (float64_of_int wins / float64_of_int (wins + losses)) * 100))
      else Finite 0)"
    by (simp only: f winrateOf_value)
  have z: "wins = 0 \<and> losses = 0 \<longrightarrow> Winrate entry = Finite 0" using v by simp
  have n: "Winrate entry \<noteq> NaN" using v by (simp split: if_splits)
  have c: "0 < wins + losses \<and> wins + losses < 2 ^ 53 \<longrightarrow>
            (\<exists>r. Winrate entry = Finite r
               \<and> \<bar>r - real_of_int wins / real_of_int (wins + losses) * 100\<bar>
                   \<le> real_of_int wins / real_of_int (wins + losses) * 100 * 3 / 2 ^ 53)"
    using winrateOf_close[OF pos] f(3) by auto
  show ?thesis using pos v z n c unfolding f(1,2) by blast
qed

theorem winrate_computed_witness:
  "(\<exists>entry st'. GetStreamStats oneWinEnv (lit ''puuid-1'') 0 idle = Done (Inr entry, st')
       \<and> Wins entry = 1 \<and> Losses entry = 0 \<and> Winrate entry = Finite 100)
   \<and> (\<exists>entry st'. GetStreamStats quietEnv (lit ''puuid-1'') 0 idle = Done (Inr entry, st')
       \<and> Wins entry = 0 \<and> Losses entry = 0 \<and> Winrate entry = Finite 0)"
proof -
  have miss: "streamCache idle (lit ''puuid-1'' @ lit ''_'' @ itoa 0) = None"
    by (simp add: idle_def)
  obtain e1 s1 where round64_quotient: "GetStreamStats oneWinEnv (lit ''puuid-1'') 0 idle = Done (Inr e1, s1)"
    and w1: "Wins e1 = 1" "Losses e1 = 0"
    by (simp add: string_defs program_defs sample_defs Let_def)
  obtain e0 s0 where r0: "GetStreamStats quietEnv (lit ''puuid-1'') 0 idle = Done (Inr e0, s0)"
    and w0: "Wins e0 = 0" "Losses e0 = 0"
    by (simp add: string_defs program_defs sample_defs Let_def)
  have one: "float64_of_int 1 = 1" using round64_of_int[of 1] by (simp add: float64_of_int_def)
  have hundred: "round64 100 = 100" using round64_of_int[of 100] by simp
  have rone: "round64 1 = 1" using round64_of_int[of 1] by simp
  have "Winrate e1 = Finite 100"
    using winrate_computed[OF miss round64_quotient] by (simp add: w1 one rone hundred)
  moreover have "Winrate e0 = Finite 0"
    using winrate_computed[OF miss r0] by (simp add: w0)
  ultimately show ?thesis using round64_quotient r0 w1 w0 by blast
qed

section \<open>The cooldown\<close>





















text \<open>
  The scenario of the specification: \<open>!hello\<close> with a cooldown of two seconds, sent
  three times one second apart, is answered the first and the third time.
\<close>

theorem hello_scenario:
  "map_outcome conn
       (mainLoop quietEnv sampleBot
          [Some (privmsg ''bob'' ''!hello''), Some (privmsg ''bob'' ''!hello''),
           Some (privmsg ''bob'' ''!hello'')] idle)
     = Done [lit ''PRIVMSG #chan :@bob hi'' @ [13, 10], lit ''PRIVMSG #chan :@bob hi'' @ [13, 10]]"
  by (simp add: string_defs program_defs sample_defs)

section \<open>Further facts about the loop and the champion cache\<close>

text \<open>
  With the table loaded, \<^verbatim>\<open>GetChampionName\<close> returns the name of an identifier that
  is in it and the placeholder for one that is not; the scenario of the specification
  runs \<^verbatim>\<open>LoadChampionMap\<close> on the file with the one entry and asks for 1 and 999.
\<close>

lemma champion_name_of_loaded_table:
  assumes "\<not> championsMu st" and "championsMap st = Some m"
  shows "GetChampionName e i st =
     Done ((case m i of Some name \<Rightarrow> name | None \<Rightarrow> unknownChampion i), st)"
  using assms by (simp add: GetChampionName_def lookupChampion_def)

lemma champion_scenario:
  "andThen (LoadChampionMap quietEnv idle)
     (\<lambda>(err, st). andThen (GetChampionName quietEnv 1 st)
        (\<lambda>(name1, st1). andThen (GetChampionName quietEnv 999 st1)
           (\<lambda>(name2, st2). Done (err, name1, name2))))
   = Done (None, lit ''Aatrox'', lit ''Unknown(999)'')"
  by (simp add: string_defs program_defs sample_defs insertChampion_def Atoi_def isDigit_def
      digitsValue_def)

text \<open>A keepalive probe is answered with one fixed frame and nothing else changes.\<close>

lemma keepalive:
  "HasPrefix (TrimSpace line) (lit ''PING'') \<Longrightarrow>
   handleLine e b line st = Done (st\<lparr>conn := conn st @ [lit ''PONG :tmi.twitch.tv'' @ [13, 10]]\<rparr>)"
  by (simp add: handleLine_def)

text \<open>A static command that was never used is answered with \<open>@sender response\<close>.\<close>

lemma static_reply:
  assumes "commands b (cleanKey (lowerTable e) msg) = Some cfg" and "Type cfg = lit ''static''"
    and "lastUsed st (cleanKey (lowerTable e) msg) = None"
  shows "dispatch e b user msg st =
     Done (st\<lparr>conn := conn st @ [lit ''PRIVMSG #'' @ channel b @ lit '' :'' @ lit ''@'' @ user
                                  @ lit '' '' @ Response cfg @ [13, 10]],
               ticks := Suc (ticks st),
               lastUsed := (lastUsed st)(cleanKey (lowerTable e) msg \<mapsto> clock e (ticks st))\<rparr>)"
  using assms
  by (simp add: dispatch_def coolingDown_def handler_def say_def time_Now_def Let_def)

end
